theory Spec2Isabelle
  imports Complex_Main
begin

section \<open>Values of the Python program\<close>

text \<open>
  A Python \<open>str\<close> is a sequence of Unicode code points, and the program works on
  characters outside ASCII (the euro sign, accented letters in column names), so a string
  is modelled as the list of its code points. \<open>U\<close> injects an ASCII literal.
\<close>

type_synonym uchar = nat
type_synonym ustr = "uchar list"

definition U :: "string \<Rightarrow> ustr" where
  "U s = map of_char s"

definition euro :: uchar where
  "euro = 8364"

datatype date = Date (year: nat) (month: nat) (day: nat)

text \<open>
  A number is a double: a finite value, one of the two infinities, or \<open>nan\<close>. A finite
  double is modelled by the real number it stands for; the sign of a zero is not
  kept. An integer is modelled by its value as well; the integers of the tables are
  taken to be below \<open>2^53\<close> in magnitude, where integer and double arithmetic agree.
\<close>

datatype pyfloat = Finite real | PosInf | NegInf | NaN

text \<open>
  A cell of a table or an argument of a function. \<open>PNone\<close> stands for \<open>None\<close> and for
  \<open>NaT\<close>; these and \<open>PNum NaN\<close> are the nulls of \<open>isna\<close>. \<open>PDate\<close> is a timestamp at
  midnight.
\<close>

datatype pyval = PNone | PStr ustr | PNum pyfloat | PDate date

text \<open>
  What can end a call early: the exceptions \<open>ValueError\<close>, \<open>TypeError\<close> and
  \<open>KeyError\<close> (with the missing key), and \<open>st.stop()\<close>, which ends the run of the
  page. \<open>Unmodelled\<close> marks the two places where the model ends: a search with a
  pattern that has metacharacters of regular expressions, and the sorting of numbers
  with a \<open>nan\<close> among them.
\<close>

datatype py_error = ValueError | TypeError | KeyError ustr | StopApp | Unmodelled

text \<open>A step that can end early, followed by the rest of the computation.\<close>

definition bind_result :: "py_error + 'a \<Rightarrow> ('a \<Rightarrow> py_error + 'b) \<Rightarrow> py_error + 'b" where
  "bind_result x f = (case x of Inl e \<Rightarrow> Inl e | Inr v \<Rightarrow> f v)"

subsection \<open>Doubles\<close>

text \<open>Rounding to the nearest integer, a tie to the even neighbour.\<close>

definition round_half_even :: "real \<Rightarrow> int" where
  "round_half_even y =
     (let f = \<lfloor>y\<rfloor>; d = y - of_int f
      in if d < 1 / 2 then f else if 1 / 2 < d then f + 1 else if even f then f else f + 1)"

text \<open>
  The doubles near \<open>x\<close> are the multiples of \<open>quantum x\<close>: a double has 53 significant
  bits, and the exponent of a normal double is at least \<open>-1022\<close>, below which the
  subnormal doubles share the quantum \<open>2^-1074\<close>. \<open>round_to_double\<close> is the rounding
  of IEEE 754 that Python uses when it reads a literal or does arithmetic: to the
  nearest double, a tie to the one with the even significand, and to an infinity when
  the rounded magnitude reaches \<open>2^1024\<close>.
\<close>

definition quantum :: "real \<Rightarrow> real" where
  "quantum x = 2 powr (of_int (max \<lfloor>log 2 \<bar>x\<bar>\<rfloor> (- 1022)) - 52)"

definition round_to_double :: "real \<Rightarrow> pyfloat" where
  "round_to_double x =
     (if x = 0 then Finite 0
      else (let y = of_int (round_half_even (x / quantum x)) * quantum x
            in if 2 ^ 1024 \<le> \<bar>y\<bar> then (if 0 < x then PosInf else NegInf) else Finite y))"

text \<open>
  Arithmetic on doubles: the exact result, rounded; the infinities and \<open>nan\<close> follow
  the rules of IEEE 754. A division by zero, which numpy answers with an infinity or
  \<open>nan\<close>, is never reached in the program: every division has a constant divisor or
  stands behind a test of the divisor.
\<close>

fun fneg :: "pyfloat \<Rightarrow> pyfloat" where
  "fneg (Finite a) = Finite (- a)"
| "fneg PosInf = NegInf"
| "fneg NegInf = PosInf"
| "fneg NaN = NaN"

fun fadd :: "pyfloat \<Rightarrow> pyfloat \<Rightarrow> pyfloat" where
  "fadd (Finite a) (Finite b) = round_to_double (a + b)"
| "fadd NaN y = NaN"
| "fadd x NaN = NaN"
| "fadd PosInf NegInf = NaN"
| "fadd NegInf PosInf = NaN"
| "fadd PosInf y = PosInf"
| "fadd x PosInf = PosInf"
| "fadd NegInf y = NegInf"
| "fadd x NegInf = NegInf"

definition fsub :: "pyfloat \<Rightarrow> pyfloat \<Rightarrow> pyfloat" where
  "fsub x y = fadd x (fneg y)"

fun fmul :: "pyfloat \<Rightarrow> pyfloat \<Rightarrow> pyfloat" where
  "fmul (Finite a) (Finite b) = round_to_double (a * b)"
| "fmul NaN y = NaN"
| "fmul x NaN = NaN"
| "fmul (Finite a) y = (if a = 0 then NaN else if (0 < a) = (y = PosInf) then PosInf else NegInf)"
| "fmul x (Finite b) = (if b = 0 then NaN else if (0 < b) = (x = PosInf) then PosInf else NegInf)"
| "fmul x y = (if x = y then PosInf else NegInf)"

fun fdiv :: "pyfloat \<Rightarrow> pyfloat \<Rightarrow> pyfloat" where
  "fdiv (Finite a) (Finite b) =
     (if b = 0 then (if a = 0 then NaN else if 0 < a then PosInf else NegInf)
      else round_to_double (a / b))"
| "fdiv NaN y = NaN"
| "fdiv x NaN = NaN"
| "fdiv (Finite a) y = Finite 0"
| "fdiv x (Finite b) = (if (0 \<le> b) = (x = PosInf) then PosInf else NegInf)"
| "fdiv x y = NaN"

text \<open>\<open>x < y\<close>, \<open>x > 0\<close> and \<open>x != 0\<close>; a comparison with \<open>nan\<close> is false, but for \<open>!=\<close>.\<close>

fun fless :: "pyfloat \<Rightarrow> pyfloat \<Rightarrow> bool" where
  "fless (Finite a) (Finite b) = (a < b)"
| "fless NaN y = False"
| "fless x NaN = False"
| "fless x PosInf = (x \<noteq> PosInf)"
| "fless NegInf y = (y \<noteq> NegInf)"
| "fless x y = False"

definition positive :: "pyfloat \<Rightarrow> bool" where
  "positive x \<longleftrightarrow> fless (Finite 0) x"

definition nonzero :: "pyfloat \<Rightarrow> bool" where
  "nonzero x \<longleftrightarrow> x \<noteq> Finite 0"

subsection \<open>String methods\<close>

text \<open>\<open>str.isspace\<close> on one code point; \<open>str.strip()\<close> removes these at both ends.\<close>

definition is_space :: "uchar \<Rightarrow> bool" where
  "is_space c \<longleftrightarrow> (9 \<le> c \<and> c \<le> 13) \<or> (28 \<le> c \<and> c \<le> 32) \<or> c = 133 \<or> c = 160
     \<or> c = 5760 \<or> (8192 \<le> c \<and> c \<le> 8202) \<or> c = 8232 \<or> c = 8233 \<or> c = 8239
     \<or> c = 8287 \<or> c = 12288"

definition strip :: "ustr \<Rightarrow> ustr" where
  "strip s = rev (dropWhile is_space (rev (dropWhile is_space s)))"

text \<open>\<open>s.replace(c, d)\<close> and \<open>s.replace(c, '')\<close> for a one-character \<open>c\<close>.\<close>

definition replace_char :: "uchar \<Rightarrow> uchar \<Rightarrow> ustr \<Rightarrow> ustr" where
  "replace_char c d s = map (\<lambda>x. if x = c then d else x) s"

definition remove_char :: "uchar \<Rightarrow> ustr \<Rightarrow> ustr" where
  "remove_char c s = filter (\<lambda>x. x \<noteq> c) s"

subsection \<open>Reading a decimal literal\<close>

definition is_digit :: "uchar \<Rightarrow> bool" where
  "is_digit c \<longleftrightarrow> 48 \<le> c \<and> c \<le> 57"

definition nat_of_digits :: "ustr \<Rightarrow> nat" where
  "nat_of_digits ds = foldl (\<lambda>a c. 10 * a + (c - 48)) 0 ds"

text \<open>
  An optional sign, then the rest of the literal. \<open>45\<close> is the minus sign, \<open>43\<close> the
  plus sign, \<open>46\<close> the point, \<open>101\<close> and \<open>69\<close> the exponent letters.
\<close>

fun split_sign :: "ustr \<Rightarrow> real \<times> ustr" where
  "split_sign [] = (1, [])"
| "split_sign (c # t) = (if c = 45 then (- 1, t) else if c = 43 then (1, t) else (1, c # t))"

fun split_fraction :: "ustr \<Rightarrow> ustr \<times> ustr" where
  "split_fraction [] = ([], [])"
| "split_fraction (c # t) =
     (if c = 46 then (takeWhile is_digit t, dropWhile is_digit t) else ([], c # t))"

fun parse_exponent :: "ustr \<Rightarrow> (real \<Rightarrow> real) option" where
  "parse_exponent [] = Some (\<lambda>m. m)"
| "parse_exponent (c # t) =
     (if c = 101 \<or> c = 69 then
        (case t of
           [] \<Rightarrow> None
         | d # t' \<Rightarrow>
            (if d = 45 then
               (if t' \<noteq> [] \<and> list_all is_digit t'
                then Some (\<lambda>m. m / 10 ^ nat_of_digits t') else None)
             else if d = 43 then
               (if t' \<noteq> [] \<and> list_all is_digit t'
                then Some (\<lambda>m. m * 10 ^ nat_of_digits t') else None)
             else
               (if list_all is_digit t
                then Some (\<lambda>m. m * 10 ^ nat_of_digits t) else None)))
      else None)"

text \<open>
  The exact value of a decimal literal in ASCII: sign, digits with an optional
  fraction (at least one digit on either side of the point), optional exponent.
  \<open>None\<close> when the whole text is not such a literal.
\<close>

definition parse_decimal :: "ustr \<Rightarrow> real option" where
  "parse_decimal s =
     (case split_sign s of (sg, r) \<Rightarrow>
        let ip = takeWhile is_digit r;
            r1 = dropWhile is_digit r
        in (case split_fraction r1 of (fp, r2) \<Rightarrow>
              if ip = [] \<and> fp = [] then None
              else (case parse_exponent r2 of
                      None \<Rightarrow> None
                    | Some scale \<Rightarrow>
                        Some (sg * scale (real (nat_of_digits (ip @ fp)) / 10 ^ length fp)))))"

subsection \<open>The builtin float on a string\<close>

text \<open>
  The code points with a decimal digit value (Unicode 14, the database of Python
  3.11): each entry is the digit zero of a script, followed by its digits one to nine.
\<close>

definition decimal_zeros :: "uchar list" where
  "decimal_zeros =
     [48, 1632, 1776, 1984, 2406, 2534, 2662, 2790, 2918, 3046, 3174, 3302, 3430, 3558,
      3664, 3792, 3872, 4160, 4240, 6112, 6160, 6470, 6608, 6784, 6800, 6992, 7088, 7232,
      7248, 42528, 43216, 43264, 43472, 43504, 43600, 44016, 65296, 66720, 68912, 69734,
      69872, 69942, 70096, 70384, 70736, 70864, 71248, 71360, 71472, 71904, 72016, 72784,
      73040, 73120, 92768, 92864, 93008, 120782, 120792, 120802, 120812, 120822, 123200,
      123632, 125264, 130032]"

definition decimal_value :: "uchar \<Rightarrow> nat option" where
  "decimal_value c =
     (case filter (\<lambda>z. z \<le> c \<and> c < z + 10) decimal_zeros of
        [] \<Rightarrow> None
      | z # zs \<Rightarrow> Some (c - z))"

text \<open>
  \<open>float\<close> first brings the string to ASCII: a code point below 127 stays, a
  Unicode space becomes a blank, a decimal digit of any script becomes the ASCII
  digit, and at the first other character the copy ends with a question mark.
\<close>

fun decimal_and_space_to_ascii :: "ustr \<Rightarrow> ustr" where
  "decimal_and_space_to_ascii [] = []"
| "decimal_and_space_to_ascii (c # cs) =
     (if c < 127 then c # decimal_and_space_to_ascii cs
      else if is_space c then 32 # decimal_and_space_to_ascii cs
      else (case decimal_value c of
              Some d \<Rightarrow> (48 + d) # decimal_and_space_to_ascii cs
            | None \<Rightarrow> [63]))"

text \<open>Then the ASCII whitespace at both ends is skipped: the blank and 9 to 13.\<close>

definition is_space_ascii :: "uchar \<Rightarrow> bool" where
  "is_space_ascii c \<longleftrightarrow> c = 32 \<or> (9 \<le> c \<and> c \<le> 13)"

definition strip_ascii :: "ustr \<Rightarrow> ustr" where
  "strip_ascii s = rev (dropWhile is_space_ascii (rev (dropWhile is_space_ascii s)))"

text \<open>
  An underscore (\<open>95\<close>) is accepted between two digits and nowhere else; the
  underscores are removed before the number is read. The first argument is the
  character before, 0 at the start.
\<close>

fun underscores_ok :: "uchar \<Rightarrow> ustr \<Rightarrow> bool" where
  "underscores_ok prev [] = (prev \<noteq> 95)"
| "underscores_ok prev (c # cs) =
     ((if c = 95 then is_digit prev else (prev \<noteq> 95 \<or> is_digit c)) \<and> underscores_ok c cs)"

text \<open>
  What is left is a decimal literal, rounded to a double, or, with an optional sign
  and in any letter case, one of the words \<open>inf\<close>, \<open>infinity\<close> and \<open>nan\<close>.
\<close>

definition lower_ascii :: "uchar \<Rightarrow> uchar" where
  "lower_ascii c = (if 65 \<le> c \<and> c \<le> 90 then c + 32 else c)"

definition parse_inf_or_nan :: "ustr \<Rightarrow> pyfloat option" where
  "parse_inf_or_nan s =
     (case split_sign s of (sg, r) \<Rightarrow>
        let w = map lower_ascii r
        in if w = U ''inf'' \<or> w = U ''infinity'' then Some (if sg < 0 then NegInf else PosInf)
           else if w = U ''nan'' then Some NaN
           else None)"

definition float_from_string_inner :: "ustr \<Rightarrow> py_error + pyfloat" where
  "float_from_string_inner s =
     (case parse_decimal s of
        Some x \<Rightarrow> Inr (round_to_double x)
      | None \<Rightarrow> (case parse_inf_or_nan s of Some f \<Rightarrow> Inr f | None \<Rightarrow> Inl ValueError))"

text \<open>The builtin \<open>float(s)\<close> on a string; a text it cannot read raises \<open>ValueError\<close>.\<close>

definition py_float :: "ustr \<Rightarrow> py_error + pyfloat" where
  "py_float s =
     (let a = strip_ascii (decimal_and_space_to_ascii s)
      in if 95 \<in> set a
         then (if underscores_ok 0 a then float_from_string_inner (remove_char 95 a)
               else Inl ValueError)
         else float_from_string_inner a)"

section \<open>data_loader.py\<close>

subsection \<open>convert_eu_to_number\<close>

text \<open>
  The text handed to \<open>float\<close>: the euro sign removed, the ends stripped, and, when a
  comma is present, the points removed and the comma turned into a point
  (\<open>44\<close> is the comma).
\<close>

definition eu_clean :: "ustr \<Rightarrow> ustr" where
  "eu_clean amount_str =
     (let clean_str = strip (remove_char euro amount_str)
      in if 44 \<in> set clean_str
         then replace_char 44 46 (remove_char 46 clean_str)
         else clean_str)"

fun convert_eu_to_number :: "pyval \<Rightarrow> pyfloat" where
  "convert_eu_to_number (PStr amount_str) =
     (case py_float (eu_clean amount_str) of Inr x \<Rightarrow> x | Inl e \<Rightarrow> Finite 0)"
| "convert_eu_to_number v = Finite 0"

section \<open>utils.py\<close>

subsection \<open>format_currency\<close>

text \<open>
  The format specification \<open>,.2f\<close>: the value rounded to two decimals (to the nearest,
  a tie to the even neighbour), the digits of the integer part grouped in threes by
  commas (\<open>44\<close>), a point (\<open>46\<close>) and two decimals; a minus sign for a negative value.
\<close>

fun digits_of_nat :: "nat \<Rightarrow> ustr" where
  "digits_of_nat n = (if n < 10 then [48 + n] else digits_of_nat (n div 10) @ [48 + n mod 10])"

declare digits_of_nat.simps [simp del]

fun group3_rev :: "ustr \<Rightarrow> ustr" where
  "group3_rev (a # b # c # d # r) = a # b # c # 44 # group3_rev (d # r)"
| "group3_rev r = r"

definition group3 :: "ustr \<Rightarrow> ustr" where
  "group3 ds = rev (group3_rev (rev ds))"

definition two_digits :: "nat \<Rightarrow> ustr" where
  "two_digits k = [48 + k div 10, 48 + k mod 10]"

definition format_fixed2 :: "real \<Rightarrow> ustr" where
  "format_fixed2 x =
     (let c = nat (round_half_even (\<bar>x\<bar> * 100))
      in (if x < 0 then [45] else []) @ group3 (digits_of_nat (c div 100)) @ [46]
         @ two_digits (c mod 100))"

text \<open>
  The f-string \<open>f"{value:,.2f} \<euro>"\<close>. A finite number is formatted as above, an
  infinity as \<open>inf\<close> or \<open>-inf\<close> and \<open>nan\<close> as \<open>nan\<close>; a string raises
  \<open>ValueError\<close> and \<open>None\<close> raises \<open>TypeError\<close> for this format specification; a
  timestamp takes the specification for a \<open>strftime\<close> pattern without directives and
  returns it unchanged.
\<close>

fun fstring_value_euro :: "pyval \<Rightarrow> py_error + ustr" where
  "fstring_value_euro (PNum (Finite x)) = Inr (format_fixed2 x @ [32, euro])"
| "fstring_value_euro (PNum PosInf) = Inr (U ''inf'' @ [32, euro])"
| "fstring_value_euro (PNum NegInf) = Inr (U ''-inf'' @ [32, euro])"
| "fstring_value_euro (PNum NaN) = Inr (U ''nan'' @ [32, euro])"
| "fstring_value_euro (PStr s) = Inl ValueError"
| "fstring_value_euro PNone = Inl TypeError"
| "fstring_value_euro (PDate d) = Inr (U '',.2f'' @ [32, euro])"

text \<open>\<open>88\<close> is the letter X that the three replacements use as the intermediate mark.\<close>

definition format_currency :: "pyval \<Rightarrow> ustr" where
  "format_currency v =
     (case fstring_value_euro v of
        Inr s \<Rightarrow> replace_char 88 46 (replace_char 46 44 (replace_char 44 88 s))
      | Inl e \<Rightarrow> U ''0,00 '' @ [euro])"

text \<open>
  What the three replacements of \<open>format_currency\<close> do to one character, taken
  together: a comma ends as a point and a point as a comma.
\<close>

definition swap_marks :: "uchar \<Rightarrow> uchar" where
  "swap_marks x = (if x = 44 \<or> x = 88 then 46 else if x = 46 then 44 else x)"

section \<open>Library functions the program calls\<close>

subsection \<open>More string methods\<close>

text \<open>
  \<open>str.lower\<close> and the case folding of a case-insensitive search, on the letters of ASCII
  and Latin-1 (\<open>215\<close> is the multiplication sign, which has no lower case); letters of
  other scripts are left as they are.
\<close>

definition lower_char :: "uchar \<Rightarrow> uchar" where
  "lower_char c =
     (if (65 \<le> c \<and> c \<le> 90) \<or> (192 \<le> c \<and> c \<le> 222 \<and> c \<noteq> 215) then c + 32 else c)"

definition lower :: "ustr \<Rightarrow> ustr" where
  "lower s = map lower_char s"

fun starts_with :: "ustr \<Rightarrow> ustr \<Rightarrow> bool" where
  "starts_with [] s = True"
| "starts_with (p # ps) [] = False"
| "starts_with (p # ps) (c # cs) = (p = c \<and> starts_with ps cs)"

fun contains_str :: "ustr \<Rightarrow> ustr \<Rightarrow> bool" where
  "contains_str p [] = (p = [])"
| "contains_str p (c # cs) = (starts_with p (c # cs) \<or> contains_str p cs)"

text \<open>
  \<open>Series.str.contains(pat, case=False, na=False)\<close> on one cell. pandas reads \<open>pat\<close>
  as a regular expression; a pattern without metacharacters matches where it occurs as
  a substring, letter case ignored, and that is what is modelled. A cell that is not a
  string gives the \<open>na\<close> value \<open>False\<close>.
\<close>

fun str_contains_nocase :: "ustr \<Rightarrow> pyval \<Rightarrow> bool" where
  "str_contains_nocase pat (PStr s) = contains_str (lower pat) (lower s)"
| "str_contains_nocase pat v = False"

subsection \<open>pandas.to_numeric\<close>

text \<open>
  \<open>pd.to_numeric(column, errors='coerce')\<close> on one cell. The reader of pandas takes
  a decimal literal in ASCII with ASCII whitespace around it, and the words \<open>inf\<close>
  and \<open>infinity\<close> with an optional sign and nothing around them; it reports a
  literal whose value overflows as an error. Any text it does not take, and a null,
  become \<open>NaN\<close>; a number stays. The value of a literal is taken to be rounded to
  the nearest double.
\<close>

definition numeric_of_str :: "ustr \<Rightarrow> pyfloat" where
  "numeric_of_str s =
     (case parse_decimal (strip_ascii s) of
        Some x \<Rightarrow> (case round_to_double x of Finite y \<Rightarrow> Finite y | f \<Rightarrow> NaN)
      | None \<Rightarrow>
          (case parse_inf_or_nan s of
             Some PosInf \<Rightarrow> PosInf
           | Some NegInf \<Rightarrow> NegInf
           | _ \<Rightarrow> NaN))"

fun to_numeric_coerce :: "pyval \<Rightarrow> pyval" where
  "to_numeric_coerce (PStr s) = PNum (numeric_of_str s)"
| "to_numeric_coerce (PNum x) = PNum x"
| "to_numeric_coerce v = PNum NaN"

text \<open>\<open>isna\<close> and \<open>Series.fillna(0)\<close> on one cell.\<close>

fun isna :: "pyval \<Rightarrow> bool" where
  "isna PNone = True"
| "isna (PNum NaN) = True"
| "isna v = False"

definition fillna0 :: "pyval \<Rightarrow> pyval" where
  "fillna0 v = (if isna v then PNum (Finite 0) else v)"

subsection \<open>Dates\<close>

fun date_le :: "date \<Rightarrow> date \<Rightarrow> bool" where
  "date_le (Date y m d) (Date y' m' d') =
     (y < y' \<or> (y = y' \<and> (m < m' \<or> (m = m' \<and> d \<le> d'))))"

definition leap_year :: "nat \<Rightarrow> bool" where
  "leap_year y \<longleftrightarrow> y mod 4 = 0 \<and> (y mod 100 \<noteq> 0 \<or> y mod 400 = 0)"

definition days_in_month :: "nat \<Rightarrow> nat \<Rightarrow> nat" where
  "days_in_month y m =
     (if m = 2 then (if leap_year y then 29 else 28)
      else if m = 4 \<or> m = 6 \<or> m = 9 \<or> m = 11 then 30 else 31)"

text \<open>
  The dates a nanosecond timestamp can hold at midnight: a day of the calendar from
  1677-09-22 to 2262-04-11.
\<close>

definition valid_timestamp :: "date \<Rightarrow> bool" where
  "valid_timestamp dt \<longleftrightarrow>
     1 \<le> month dt \<and> month dt \<le> 12 \<and> 1 \<le> day dt \<and> day dt \<le> days_in_month (year dt) (month dt)
     \<and> date_le (Date 1677 9 22) dt \<and> date_le dt (Date 2262 4 11)"

text \<open>
  The three directives of the formats in use, with the texts each one accepts. The
  regular expressions are those of \<open>strptime\<close>: \<open>%d\<close> is
  \<open>3[0-1]|[1-2]\d|0[1-9]|[1-9]| [1-9]\<close>, \<open>%m\<close> is \<open>1[0-2]|0[1-9]|[1-9]\<close> and \<open>%Y\<close>
  is \<open>\d\d\d\d\<close>, where \<open>\d\<close> is a decimal digit of any script.
\<close>

datatype directive = Dd | Dm | DY

definition nonzero_digit :: "uchar \<Rightarrow> bool" where
  "nonzero_digit c \<longleftrightarrow> 49 \<le> c \<and> c \<le> 57"

fun parse_directive :: "directive \<Rightarrow> ustr \<Rightarrow> nat option" where
  "parse_directive Dd [a] = (if nonzero_digit a then Some (a - 48) else None)"
| "parse_directive Dd [a, b] =
     (if a = 51 \<and> (b = 48 \<or> b = 49) then Some (30 + (b - 48))
      else if a = 49 \<or> a = 50
      then (case decimal_value b of Some d \<Rightarrow> Some (10 * (a - 48) + d) | None \<Rightarrow> None)
      else if (a = 48 \<or> a = 32) \<and> nonzero_digit b then Some (b - 48)
      else None)"
| "parse_directive Dd p = None"
| "parse_directive Dm [a] = (if nonzero_digit a then Some (a - 48) else None)"
| "parse_directive Dm [a, b] =
     (if a = 49 \<and> 48 \<le> b \<and> b \<le> 50 then Some (10 + (b - 48))
      else if a = 48 \<and> nonzero_digit b then Some (b - 48)
      else None)"
| "parse_directive Dm p = None"
| "parse_directive DY p =
     (if length p = 4 \<and> list_all (\<lambda>c. decimal_value c \<noteq> None) p
      then Some (foldl (\<lambda>n c. 10 * n + (case decimal_value c of Some d \<Rightarrow> d | None \<Rightarrow> 0)) 0 p)
      else None)"

text \<open>
  A format is three directives with one separator character between them:
  \<open>%d/%m/%Y\<close> is \<open>(Dd, Dm, DY, 47)\<close>.
\<close>

type_synonym date_format = "directive \<times> directive \<times> directive \<times> uchar"

definition split_on :: "uchar \<Rightarrow> ustr \<Rightarrow> ustr list" where
  "split_on c s = foldr (\<lambda>x acc. if x = c then [] # acc else (x # hd acc) # tl acc) s [[]]"

fun pick :: "directive \<Rightarrow> (directive \<times> nat) list \<Rightarrow> nat" where
  "pick k [] = 0"
| "pick k ((k', v) # r) = (if k = k' then v else pick k r)"

definition strptime :: "date_format \<Rightarrow> ustr \<Rightarrow> date option" where
  "strptime fmt s =
     (case fmt of (f1, f2, f3, sep) \<Rightarrow>
        (case split_on sep s of
           [p1, p2, p3] \<Rightarrow>
             (case (parse_directive f1 p1, parse_directive f2 p2, parse_directive f3 p3) of
                (Some v1, Some v2, Some v3) \<Rightarrow>
                  (let vs = [(f1, v1), (f2, v2), (f3, v3)];
                       dt = Date (pick DY vs) (pick Dm vs) (pick Dd vs)
                   in if valid_timestamp dt then Some dt else None)
              | _ \<Rightarrow> None)
         | _ \<Rightarrow> None))"

text \<open>
  \<open>pd.to_datetime(column, format=fmt, errors='coerce')\<close> on one cell: a text that the
  format does not match, or that names no day a timestamp can hold, becomes \<open>NaT\<close>.
\<close>

fun to_datetime_coerce :: "date_format \<Rightarrow> pyval \<Rightarrow> pyval" where
  "to_datetime_coerce fmt (PStr s) = (case strptime fmt s of Some d \<Rightarrow> PDate d | None \<Rightarrow> PNone)"
| "to_datetime_coerce fmt (PDate d) = PDate d"
| "to_datetime_coerce fmt v = PNone"

text \<open>
  The day of the week, 0 for Monday, by Zeller's congruence, and the names that
  \<open>dt.day_name()\<close> gives.
\<close>

definition weekday :: "date \<Rightarrow> nat" where
  "weekday dt =
     (let m = (if month dt < 3 then month dt + 12 else month dt);
          y = (if month dt < 3 then year dt - 1 else year dt);
          k = y mod 100;
          j = y div 100
      in (day dt + (13 * (m + 1)) div 5 + k + k div 4 + j div 4 + 5 * j + 5) mod 7)"

definition day_name :: "date \<Rightarrow> ustr" where
  "day_name dt =
     [U ''Monday'', U ''Tuesday'', U ''Wednesday'', U ''Thursday'', U ''Friday'',
      U ''Saturday'', U ''Sunday''] ! weekday dt"

text \<open>
  The month names of \<open>strftime('%B')\<close>. They depend on the time locale of the process:
  \<open>app.py\<close> asks for the Italian one and keeps the default C locale when the system
  does not have it.
\<close>

datatype lc_time = LC_it | LC_C

definition month_names_it :: "ustr list" where
  "month_names_it =
     [U ''gennaio'', U ''febbraio'', U ''marzo'', U ''aprile'', U ''maggio'', U ''giugno'',
      U ''luglio'', U ''agosto'', U ''settembre'', U ''ottobre'', U ''novembre'', U ''dicembre'']"

definition month_names_C :: "ustr list" where
  "month_names_C =
     [U ''January'', U ''February'', U ''March'', U ''April'', U ''May'', U ''June'',
      U ''July'', U ''August'', U ''September'', U ''October'', U ''November'', U ''December'']"

fun strftime_B :: "lc_time \<Rightarrow> date \<Rightarrow> ustr" where
  "strftime_B LC_it dt = month_names_it ! (month dt - 1)"
| "strftime_B LC_C dt = month_names_C ! (month dt - 1)"

subsection \<open>Data frames\<close>

text \<open>
  A \<open>DataFrame\<close> is the list of its column names and the list of its rows, a row giving
  the cell of each column (and \<open>PNone\<close> for a name that is not a column). Column names
  are taken to be distinct.
\<close>

record frame =
  columns :: "ustr list"
  rows :: "(ustr \<Rightarrow> pyval) list"

definition empty_frame :: frame where
  "empty_frame = \<lparr>columns = [], rows = []\<rparr>"

text \<open>\<open>df.empty\<close>: no rows or no columns.\<close>

definition is_empty :: "frame \<Rightarrow> bool" where
  "is_empty df \<longleftrightarrow> rows df = [] \<or> columns df = []"

text \<open>\<open>df[col] = f(df[col])\<close> for a function of one cell, and \<open>df[col] = None\<close>.\<close>

definition map_column :: "ustr \<Rightarrow> (pyval \<Rightarrow> pyval) \<Rightarrow> frame \<Rightarrow> frame" where
  "map_column col f df = df\<lparr>rows := map (\<lambda>r. r(col := f (r col))) (rows df)\<rparr>"

definition set_column :: "ustr \<Rightarrow> ((ustr \<Rightarrow> pyval) \<Rightarrow> pyval) \<Rightarrow> frame \<Rightarrow> frame" where
  "set_column col f df =
     \<lparr>columns = (if col \<in> set (columns df) then columns df else columns df @ [col]),
      rows = map (\<lambda>r. r(col := f r)) (rows df)\<rparr>"

text \<open>\<open>df[mask]\<close> for a mask computed row by row.\<close>

definition select_rows :: "((ustr \<Rightarrow> pyval) \<Rightarrow> bool) \<Rightarrow> frame \<Rightarrow> frame" where
  "select_rows p df = df\<lparr>rows := filter p (rows df)\<rparr>"

text \<open>\<open>df.dropna(how='all')\<close>: a row all of whose cells are null is dropped.\<close>

definition dropna_all :: "frame \<Rightarrow> frame" where
  "dropna_all df = select_rows (\<lambda>r. \<not> list_all (\<lambda>c. isna (r c)) (columns df)) df"

text \<open>
  \<open>df[col]\<close> raises \<open>KeyError\<close> for a name that is not a column. \<open>Series.sum()\<close>
  skips the nulls and gives 0 for no cell; the numbers are added from the first to the
  last (numpy groups the additions of a long column in another way, which can change
  the last bit of an inexact sum). On a column that holds a string or a timestamp
  either the sum or the arithmetic done with it next raises \<open>TypeError\<close>.
\<close>

definition get_column :: "frame \<Rightarrow> ustr \<Rightarrow> py_error + pyval list" where
  "get_column df col =
     (if col \<in> set (columns df) then Inr (map (\<lambda>r. r col) (rows df)) else Inl (KeyError col))"

definition float_sum :: "pyfloat list \<Rightarrow> pyfloat" where
  "float_sum xs = foldl fadd (Finite 0) (filter (\<lambda>x. x \<noteq> NaN) xs)"

fun not_summable :: "pyval \<Rightarrow> bool" where
  "not_summable (PStr s) = True"
| "not_summable (PDate d) = True"
| "not_summable v = False"

fun number_of :: "pyval \<Rightarrow> pyfloat" where
  "number_of (PNum x) = x"
| "number_of v = NaN"

definition series_sum :: "pyval list \<Rightarrow> py_error + pyfloat" where
  "series_sum vs =
     (if list_ex not_summable vs then Inl TypeError else Inr (float_sum (map number_of vs)))"

text \<open>\<open>Series.unique()\<close>: the distinct values in the order of their first occurrence.\<close>

definition unique :: "'a list \<Rightarrow> 'a list" where
  "unique xs = rev (remdups (rev xs))"

text \<open>
  \<open>sorted(values)\<close>. Python compares two strings by code points, two numbers and two
  timestamps by value; any other pair of these values, \<open>None\<close> included, raises
  \<open>TypeError\<close>, and a list of two or more elements cannot be sorted without comparing
  such a pair when it has one. The order that \<open>sorted\<close> gives to numbers with a
  \<open>nan\<close> among them depends on its algorithm and is not modelled.
\<close>

fun str_less :: "ustr \<Rightarrow> ustr \<Rightarrow> bool" where
  "str_less [] [] = False"
| "str_less [] (y # ys) = True"
| "str_less (x # xs) [] = False"
| "str_less (x # xs) (y # ys) = (x < y \<or> (x = y \<and> str_less xs ys))"

fun comparable :: "pyval \<Rightarrow> pyval \<Rightarrow> bool" where
  "comparable (PStr a) (PStr b) = True"
| "comparable (PNum a) (PNum b) = True"
| "comparable (PDate a) (PDate b) = True"
| "comparable v w = False"

fun py_less :: "pyval \<Rightarrow> pyval \<Rightarrow> bool" where
  "py_less (PStr a) (PStr b) = str_less a b"
| "py_less (PNum a) (PNum b) = fless a b"
| "py_less (PDate a) (PDate b) = (\<not> date_le b a)"
| "py_less v w = False"

fun insort_py :: "pyval \<Rightarrow> pyval list \<Rightarrow> pyval list" where
  "insort_py x [] = [x]"
| "insort_py x (y # ys) = (if py_less y x then y # insort_py x ys else x # y # ys)"

definition py_sorted :: "pyval list \<Rightarrow> py_error + pyval list" where
  "py_sorted xs =
     (if length xs \<le> 1 then Inr xs
      else if \<not> list_all (\<lambda>x. list_all (comparable x) xs) xs then Inl TypeError
      else if PNum NaN \<in> set xs then Inl Unmodelled
      else Inr (foldr insort_py xs []))"

section \<open>data_loader.py: load_sheets_data\<close>

text \<open>
  A worksheet is what \<open>get_all_values()\<close> returns: the rows of the sheet as lists of
  strings, the first one the header. A spreadsheet gives the worksheet of a title, or
  nothing when looking it up raises. Building the frame raises when the sheet has no
  header row (\<open>data[0]\<close>) or a row does not have one cell for each header; the source
  catches that and keeps \<open>None\<close> for the sheet.
\<close>

type_synonym worksheet = "ustr list list"
type_synonym spreadsheet = "ustr \<Rightarrow> worksheet option"

definition row_of :: "ustr list \<Rightarrow> pyval list \<Rightarrow> ustr \<Rightarrow> pyval" where
  "row_of headers cells c = (case map_of (zip headers cells) c of Some v \<Rightarrow> v | None \<Rightarrow> PNone)"

definition sheet_to_frame :: "worksheet \<Rightarrow> frame option" where
  "sheet_to_frame data =
     (case data of
        [] \<Rightarrow> None
      | headers # body \<Rightarrow>
          if list_all (\<lambda>r. length r = length headers) body
          then Some \<lparr>columns = headers, rows = map (\<lambda>r. row_of headers (map PStr r)) body\<rparr>
          else None)"

definition load_sheet :: "spreadsheet \<Rightarrow> ustr \<Rightarrow> frame option" where
  "load_sheet sheet title = (case sheet title of None \<Rightarrow> None | Some data \<Rightarrow> sheet_to_frame data)"

text \<open>The mapping that the code carries for a spreadsheet without a usable sheet "Mappa".\<close>

definition default_mapping_data :: "(ustr \<times> ustr) list" where
  "default_mapping_data =
     [(U ''ACOS MEDICA'', U ''Acos Medica''),
      (U ''Bovo Garden Srl'', U ''Flobflower''),
      (U ''Business Gates S.r.l.'', U ''Business Gates''),
      (U ''CARL ZEISS VISION ITALIA S.P.A.'', U ''Zeiss''),
      (U ''CAROVILLA PIERLUIGI (SONIT)'', U ''Sonit''),
      (U ''Cisa S.p.a.'', U ''Cisa''),
      (U ''CoLibr'' @ [236] @ U '' System S.p.A.'', U ''Colibr'' @ [236]),
      (U ''CURCAPIL DI CARLUCCI DONATO SNC'', U ''Curcapil''),
      (U ''Elettrocasa S.r.l.'', U ''Elettrocasa''),
      (U ''FIDELIA - S.R.L.'', U ''Casaviva''),
      (U ''FLO.MAR. S.R.L.S.'', U ''Flomar''),
      (U ''Fratelli Bonella'', U ''Fratelli Bonella''),
      (U ''HOMIT S.R.L.'', U ''Divani Store''),
      (U ''NOWAVE'', U ''Nowave''),
      (U ''PATRIZIO BRESEGHELLO'', U ''Patrizio Breseghello''),
      (U ''POLONORD ADESTE'', U ''Polonord''),
      (U ''SAIET'', U ''Saiet''),
      (U ''SAN PIETRO LAB'', U ''San Pietro Lab''),
      (U ''Sivec Srl'', U ''Passione Fiori''),
      (U ''STILMAR DI MARISE RICCARDO (COCCOLE)'', U ''Coccole''),
      (U ''TOMAINO SRL'', U ''Tomaino'')]"

definition default_mapping_df :: frame where
  "default_mapping_df =
     \<lparr>columns = [U ''Cliente'', U ''Cliente Map''],
      rows = map (\<lambda>(a, b). row_of [U ''Cliente'', U ''Cliente Map''] [PStr a, PStr b])
               default_mapping_data\<rparr>"

definition load_mapping :: "spreadsheet \<Rightarrow> frame" where
  "load_mapping sheet =
     (case load_sheet sheet (U ''Mappa'') of Some df \<Rightarrow> df | None \<Rightarrow> default_mapping_df)"

text \<open>
  The table of compensations gets the column "Collaboratore" as its index. An indexed
  frame names the column that holds the index labels; that column is no longer one of
  the \<open>columns\<close> of the body, and its cells stay in the rows under its name. Without a
  name the index is the default one, the row numbers.
\<close>

record indexed_frame =
  index_name :: "ustr option"
  body :: frame

text \<open>The revenue table keeps the rows marked "Actual" and loses that column.\<close>

definition drop_column :: "ustr \<Rightarrow> frame \<Rightarrow> frame" where
  "drop_column col df =
     \<lparr>columns = filter (\<lambda>c. c \<noteq> col) (columns df),
      rows = map (\<lambda>r. r(col := PNone)) (rows df)\<rparr>"

definition prepare_clienti :: "frame \<Rightarrow> frame" where
  "prepare_clienti clienti_df =
     (if U ''Actual'' \<in> set (columns clienti_df)
      then drop_column (U ''Actual'')
             (select_rows (\<lambda>r. r (U ''Actual'') = PStr (U ''Actual'')) clienti_df)
      else clienti_df)"

text \<open>
  The four steps on a column of compensations, cell by cell: the empty string becomes
  \<open>NaN\<close>; the characters of the class \<open>[\<euro>.,\s]\<close> are deleted from a string;
  \<open>to_numeric\<close> with \<open>errors='coerce'\<close>; \<open>fillna(0)\<close>. None of them raises, so the
  handler that sets the whole column to 0 is never entered.
\<close>

fun replace_empty_nan :: "pyval \<Rightarrow> pyval" where
  "replace_empty_nan (PStr s) = (if s = [] then PNone else PStr s)"
| "replace_empty_nan v = v"

definition currency_class :: "uchar \<Rightarrow> bool" where
  "currency_class c \<longleftrightarrow> c = euro \<or> c = 46 \<or> c = 44 \<or> is_space c"

fun delete_currency_class :: "pyval \<Rightarrow> pyval" where
  "delete_currency_class (PStr s) = PStr (filter (\<lambda>c. \<not> currency_class c) s)"
| "delete_currency_class v = v"

definition compenso_cell :: "pyval \<Rightarrow> pyval" where
  "compenso_cell v = fillna0 (to_numeric_coerce (delete_currency_class (replace_empty_nan v)))"

definition rename_column :: "ustr \<Rightarrow> ustr \<Rightarrow> frame \<Rightarrow> frame" where
  "rename_column old new df =
     \<lparr>columns = map (\<lambda>c. if c = old then new else c) (columns df),
      rows = map (\<lambda>r. (r(old := PNone))(new := r old)) (rows df)\<rparr>"

definition prepare_compensi :: "frame \<Rightarrow> indexed_frame" where
  "prepare_compensi compensi_df0 =
     (let compensi_df =
            (if U ''Collaboaratore'' \<in> set (columns compensi_df0)
             then rename_column (U ''Collaboaratore'') (U ''Collaboratore'') compensi_df0
             else compensi_df0)
      in if U ''Collaboratore'' \<in> set (columns compensi_df)
         then
           (let indexed = compensi_df\<lparr>columns :=
                            filter (\<lambda>c. c \<noteq> U ''Collaboratore'') (columns compensi_df)\<rparr>
            in \<lparr>index_name = Some (U ''Collaboratore''),
                body = foldl (\<lambda>df col. map_column col compenso_cell df) indexed (columns indexed)\<rparr>)
         else \<lparr>index_name = None, body = compensi_df\<rparr>)"

text \<open>
  \<open>load_sheets_data\<close> from the opened spreadsheet on; \<open>None\<close> for the spreadsheet
  stands for a client that could not be made or a document that could not be opened.
\<close>

definition load_sheets_data ::
  "spreadsheet option \<Rightarrow> frame option \<times> frame option \<times> indexed_frame option \<times> frame option" where
  "load_sheets_data client =
     (case client of
        None \<Rightarrow> (None, None, None, None)
      | Some sheet \<Rightarrow>
          (let logbook_df = load_sheet sheet (U ''Logbook'');
               clienti_df = load_sheet sheet (U ''Clienti'');
               compensi_df = load_sheet sheet (U ''Compensi collaboratori'');
               mapping_df = load_mapping sheet
           in case (logbook_df, clienti_df, compensi_df) of
                (Some l, Some c, Some p) \<Rightarrow>
                  (Some (dropna_all l), Some (prepare_clienti (dropna_all c)),
                   Some (prepare_compensi (dropna_all p)), Some (dropna_all mapping_df))
              | _ \<Rightarrow>
                  (logbook_df, clienti_df,
                   map_option (\<lambda>p. \<lparr>index_name = None, body = p\<rparr>) compensi_df,
                   Some mapping_df)))"

section \<open>data_processor.py\<close>

subsection \<open>process_logbook\<close>

definition required_columns :: "ustr list" where
  "required_columns =
     [U ''Nome'', U ''Data'', U ''Mese'', U ''Giorno'', U ''Reparto1'', U ''Macro attivit'' @ [224],
      U ''Micro attivit'' @ [224], U ''Cliente'', U ''Note'', U ''Minuti Impiegati'']"

definition format_dmy :: date_format where
  "format_dmy = (Dd, Dm, DY, 47)"

text \<open>The other formats, in the order of the source: Y-m-d, d-m-Y, m/d/Y, Y/m/d.\<close>

definition other_formats :: "date_format list" where
  "other_formats = [(DY, Dm, Dd, 45), (Dd, Dm, DY, 45), (Dm, Dd, DY, 47), (DY, Dm, Dd, 47)]"

text \<open>
  One round of the loop over the other formats. \<open>invalid_dates\<close> is the copy of the rows
  whose date is null, taken after the column "Data" has been replaced by the result of
  the first conversion, so its column "Data" holds \<open>NaT\<close> and no longer the text of the
  sheet. The round converts that column with the format; when some cell converts, the
  source assigns through \<open>processed_df.loc[~valid_dates]\<close>, which is a new frame, so
  \<open>processed_df\<close> itself is the same after the round in both cases.
\<close>

definition try_other_format :: "frame \<Rightarrow> frame \<Rightarrow> date_format \<Rightarrow> frame" where
  "try_other_format processed_df invalid_dates fmt =
     (let date_temp = map (\<lambda>r. to_datetime_coerce fmt (r (U ''Data''))) (rows invalid_dates);
          mask = map (\<lambda>v. \<not> isna v) date_temp
      in if list_ex (\<lambda>b. b) mask then processed_df else processed_df)"

definition convert_dates :: "frame \<Rightarrow> frame" where
  "convert_dates processed_df =
     (if U ''Data'' \<in> set (columns processed_df)
      then
        (let converted = map_column (U ''Data'') (to_datetime_coerce format_dmy) processed_df
         in if list_ex (\<lambda>r. isna (r (U ''Data''))) (rows converted)
            then
              (let invalid_dates = select_rows (\<lambda>r. isna (r (U ''Data''))) converted
               in foldl (\<lambda>p fmt. try_other_format p invalid_dates fmt) converted other_formats)
            else converted)
      else set_column (U ''Data'') (\<lambda>r. PNone) processed_df)"

definition add_missing_columns :: "frame \<Rightarrow> frame" where
  "add_missing_columns processed_df =
     foldl (\<lambda>p col. if col \<in> set (columns p) then p else set_column col (\<lambda>r. PNone) p)
       processed_df required_columns"

text \<open>\<open>dt.strftime('%B').str.lower()\<close> and \<open>dt.day_name()\<close> on one cell of dates.\<close>

fun month_lower :: "lc_time \<Rightarrow> pyval \<Rightarrow> pyval" where
  "month_lower lc (PDate d) = PStr (lower (strftime_B lc d))"
| "month_lower lc v = PNone"

fun day_name_cell :: "pyval \<Rightarrow> pyval" where
  "day_name_cell (PDate d) = PStr (day_name d)"
| "day_name_cell v = PNone"

definition fill_month_and_day :: "lc_time \<Rightarrow> frame \<Rightarrow> frame" where
  "fill_month_and_day lc processed_df =
     (if U ''Data'' \<in> set (columns processed_df)
         \<and> \<not> list_all (\<lambda>r. isna (r (U ''Data''))) (rows processed_df)
      then
        (let with_month =
               (if U ''Mese'' \<notin> set (columns processed_df)
                   \<or> list_ex (\<lambda>r. isna (r (U ''Mese''))) (rows processed_df)
                then set_column (U ''Mese'') (\<lambda>r. month_lower lc (r (U ''Data''))) processed_df
                else processed_df)
         in if U ''Giorno'' \<notin> set (columns with_month)
               \<or> list_ex (\<lambda>r. isna (r (U ''Giorno''))) (rows with_month)
            then set_column (U ''Giorno'') (\<lambda>r. day_name_cell (r (U ''Data''))) with_month
            else with_month)
      else processed_df)"

text \<open>
  \<open>process_logbook\<close>. The \<open>lc_time\<close> argument is the time locale of the process, which
  \<open>strftime\<close> reads. The conversions are called with \<open>errors='coerce'\<close> and do not
  raise, so the handlers that reset a whole column are never entered.
\<close>

definition process_logbook :: "lc_time \<Rightarrow> frame option \<Rightarrow> frame" where
  "process_logbook lc df =
     (let processed_df = (case df of Some d \<Rightarrow> d | None \<Rightarrow> empty_frame)
      in if is_empty processed_df then \<lparr>columns = required_columns, rows = []\<rparr>
         else
           (let dated = convert_dates processed_df;
                completed = add_missing_columns dated;
                numeric = map_column (U ''Minuti Impiegati'')
                            (\<lambda>v. fillna0 (to_numeric_coerce v)) completed;
                labelled = fill_month_and_day lc numeric
            in select_rows (\<lambda>r. \<not> isna (r (U ''Data''))) labelled))"

subsection \<open>filter_data\<close>

text \<open>
  A selector is \<open>None\<close> or a list; \<open>if xs and len(xs) > 0\<close> holds for a list that is
  not empty. \<open>isin\<close> is membership.
\<close>

fun selected :: "pyval list option \<Rightarrow> pyval list" where
  "selected None = []"
| "selected (Some vs) = vs"

definition isin_filter :: "ustr \<Rightarrow> pyval list \<Rightarrow> frame \<Rightarrow> frame" where
  "isin_filter col vs df = select_rows (\<lambda>r. r col \<in> set vs) df"

fun in_period :: "date \<Rightarrow> date \<Rightarrow> pyval \<Rightarrow> bool" where
  "in_period start_ts end_ts (PDate d) = (date_le start_ts d \<and> date_le d end_ts)"
| "in_period start_ts end_ts v = False"

text \<open>
  The three masks of the filter by date are computed on the whole column. Comparing
  the column with a timestamp raises \<open>TypeError\<close> when a cell that is not null holds
  something else than a timestamp.
\<close>

fun timestamp_or_null :: "pyval \<Rightarrow> bool" where
  "timestamp_or_null (PDate d) = True"
| "timestamp_or_null v = isna v"

definition filter_data ::
  "frame option \<Rightarrow> date option \<Rightarrow> date option \<Rightarrow> pyval list option \<Rightarrow> pyval list option
     \<Rightarrow> pyval list option \<Rightarrow> pyval list option \<Rightarrow> pyval list option \<Rightarrow> py_error + frame" where
  "filter_data df start_date end_date collaborators departments macro_activities
       micro_activities clients =
     (case df of
        None \<Rightarrow> Inr empty_frame
      | Some d \<Rightarrow>
          if is_empty d then Inr empty_frame
          else
            bind_result
              (case (start_date, end_date) of
                 (Some start_ts, Some end_ts) \<Rightarrow>
                   if U ''Data'' \<in> set (columns d)
                   then (if list_all (\<lambda>r. timestamp_or_null (r (U ''Data''))) (rows d)
                         then Inr (select_rows (\<lambda>r. in_period start_ts end_ts (r (U ''Data''))) d)
                         else Inl TypeError)
                   else Inr d
               | _ \<Rightarrow> Inr d)
              (\<lambda>by_date.
                 let by_collaborator =
                       (if selected collaborators \<noteq> [] \<and> U ''Nome'' \<in> set (columns by_date)
                        then isin_filter (U ''Nome'') (selected collaborators) by_date
                        else by_date);
                     by_department =
                       (if selected departments \<noteq> []
                        then
                          (if U ''Reparto'' \<in> set (columns by_collaborator)
                           then isin_filter (U ''Reparto'') (selected departments) by_collaborator
                           else if U ''Reparto1'' \<in> set (columns by_collaborator)
                           then isin_filter (U ''Reparto1'') (selected departments) by_collaborator
                           else by_collaborator)
                        else by_collaborator);
                     by_macro =
                       (if selected macro_activities \<noteq> []
                           \<and> U ''Macro attivit'' @ [224] \<in> set (columns by_department)
                        then isin_filter (U ''Macro attivit'' @ [224]) (selected macro_activities)
                               by_department
                        else by_department)
                 in Inr (if selected clients \<noteq> [] \<and> U ''Cliente'' \<in> set (columns by_macro)
                         then isin_filter (U ''Cliente'') (selected clients) by_macro
                         else by_macro)))"

section \<open>app.py\<close>

subsection \<open>find_client_row\<close>

text \<open>
  \<open>column == name\<close> on one cell: a null cell is equal to nothing. The characters that
  make a pattern more than a literal text are \<open>. ^ $ * + ? { } [ ] \ | ( )\<close>.
\<close>

definition cell_eq :: "pyval \<Rightarrow> pyval \<Rightarrow> bool" where
  "cell_eq v w \<longleftrightarrow> v = w \<and> \<not> isna v"

definition regex_meta :: "uchar \<Rightarrow> bool" where
  "regex_meta c \<longleftrightarrow> c \<in> set [46, 94, 36, 42, 43, 63, 123, 125, 91, 93, 92, 124, 40, 41]"

text \<open>
  The exact match is tried first, then the search for the name inside the cells with
  the letter case ignored. That search raises \<open>TypeError\<close> for a name that is not a
  string.
\<close>

definition find_client_row :: "frame option \<Rightarrow> pyval \<Rightarrow> py_error + frame option" where
  "find_client_row clienti_df client_name =
     (case clienti_df of
        None \<Rightarrow> Inr None
      | Some df \<Rightarrow>
          if is_empty df then Inr None
          else if U ''Cliente'' \<in> set (columns df)
          then
            (let result = select_rows (\<lambda>r. cell_eq (r (U ''Cliente'')) client_name) df
             in if \<not> is_empty result then Inr (Some result)
                else
                  (case client_name of
                     PStr pat \<Rightarrow>
                       if list_ex regex_meta pat then Inl Unmodelled
                       else
                         (let partial =
                                select_rows (\<lambda>r. str_contains_nocase pat (r (U ''Cliente''))) df
                          in if \<not> is_empty partial then Inr (Some partial) else Inr None)
                   | _ \<Rightarrow> Inl TypeError))
          else Inr None)"

subsection \<open>extract_month_from_date\<close>

definition month_map :: "(nat \<times> ustr) list" where
  "month_map =
     [(1, U ''Gennaio''), (2, U ''Febbraio''), (3, U ''Marzo''), (4, U ''Aprile''),
      (5, U ''Maggio''), (6, U ''Giugno''), (7, U ''Luglio''), (8, U ''Agosto''),
      (9, U ''Settembre''), (10, U ''Ottobre''), (11, U ''Novembre''), (12, U ''Dicembre'')]"

text \<open>
  A null gives \<open>None\<close>; a value that is not a date has no attribute \<open>month\<close>, and the
  handler turns the exception into \<open>None\<close> as well.
\<close>

fun extract_month_from_date :: "pyval \<Rightarrow> pyval" where
  "extract_month_from_date (PDate d) =
     (case map_of month_map (month d) of Some name \<Rightarrow> PStr name | None \<Rightarrow> PNone)"
| "extract_month_from_date v = PNone"

subsection \<open>main: the tables\<close>

text \<open>
  \<open>dict(zip(mapping_df['Cliente Map'], mapping_df['Cliente']))\<close>: the keys are the
  cells of "Cliente Map", and of two rows with the same key the later one stays.
  \<open>client_map.get(cl, cl)\<close> is \<open>dict_get client_map cl cl\<close>.
\<close>

definition client_map_of :: "frame option \<Rightarrow> (pyval \<rightharpoonup> pyval)" where
  "client_map_of mapping_df =
     (case mapping_df of
        None \<Rightarrow> Map.empty
      | Some m \<Rightarrow>
          if \<not> is_empty m \<and> U ''Cliente'' \<in> set (columns m) \<and> U ''Cliente Map'' \<in> set (columns m)
          then map_of (rev (map (\<lambda>r. (r (U ''Cliente Map''), r (U ''Cliente''))) (rows m)))
          else Map.empty)"

definition dict_get :: "('k \<rightharpoonup> 'v) \<Rightarrow> 'k \<Rightarrow> 'v \<Rightarrow> 'v" where
  "dict_get m k dflt = (case m k of Some v \<Rightarrow> v | None \<Rightarrow> dflt)"

text \<open>
  The processed logbook with the column "MeseFormattato", the month of the date under
  its capitalised Italian name.
\<close>

definition add_month_key :: "frame \<Rightarrow> frame" where
  "add_month_key logbook_processed =
     (if U ''Data'' \<in> set (columns logbook_processed)
      then set_column (U ''MeseFormattato'') (\<lambda>r. extract_month_from_date (r (U ''Data'')))
             logbook_processed
      else logbook_processed)"

subsection \<open>main: the key metrics\<close>

record metrics =
  total_hours :: pyfloat
  total_period_cost_for_selected_collaborators :: pyfloat
  total_company_hours_for_selected_collaborators :: pyfloat
  average_hourly_cost_for_selected_collaborators :: pyfloat
  filtered_hours_cost :: pyfloat
  total_revenue :: pyfloat
  margin :: pyfloat
  margin_percentage :: pyfloat

text \<open>\<open>df['Minuti Impiegati'].sum() / 60\<close>.\<close>

definition minutes_hours :: "frame \<Rightarrow> py_error + pyfloat" where
  "minutes_hours df =
     bind_result (get_column df (U ''Minuti Impiegati''))
       (\<lambda>vs. bind_result (series_sum vs) (\<lambda>s. Inr (fdiv s (Finite 60))))"

text \<open>The months that the filtered rows touch.\<close>

definition selected_months :: "frame \<Rightarrow> pyval list" where
  "selected_months filtered_df =
     (if \<not> is_empty filtered_df \<and> U ''MeseFormattato'' \<in> set (columns filtered_df)
      then unique (filter (\<lambda>v. \<not> isna v) (map (\<lambda>r. r (U ''MeseFormattato'')) (rows filtered_df)))
      else [])"

text \<open>
  \<open>month_name and month_name in df.columns\<close>: the name of the column for a month that
  is a string, not empty, and a column of the table.
\<close>

fun month_column :: "pyval \<Rightarrow> ustr list \<Rightarrow> ustr option" where
  "month_column (PStr s) cols = (if s \<noteq> [] \<and> s \<in> set cols then Some s else None)"
| "month_column v cols = None"

text \<open>
  The labels of the index: the cells of the index column, or the row numbers for the
  default index.
\<close>

definition index_labels :: "indexed_frame \<Rightarrow> pyval list" where
  "index_labels t =
     (case index_name t of
        Some c \<Rightarrow> map (\<lambda>r. r c) (rows (body t))
      | None \<Rightarrow> map (\<lambda>i. PNum (Finite (real i))) [0..<length (rows (body t))])"

definition relevant_compensi :: "indexed_frame \<Rightarrow> pyval list \<Rightarrow> frame" where
  "relevant_compensi compensi_df collaborators_for_costs =
     (body compensi_df)\<lparr>rows :=
        map snd (filter (\<lambda>(label, r). label \<in> set collaborators_for_costs)
                   (zip (index_labels compensi_df) (rows (body compensi_df))))\<rparr>"

text \<open>
  The sum over the months of the column sums; a column whose sum raises is skipped by
  the handler around it.
\<close>

definition month_costs_sum :: "frame \<Rightarrow> pyval list \<Rightarrow> pyfloat" where
  "month_costs_sum relevant_compensi_df months =
     foldl (\<lambda>acc month_name.
              case month_column month_name (columns relevant_compensi_df) of
                None \<Rightarrow> acc
              | Some c \<Rightarrow>
                  (case series_sum (map (\<lambda>r. r c) (rows relevant_compensi_df)) of
                     Inr s \<Rightarrow> fadd acc s
                   | Inl e \<Rightarrow> acc))
       (Finite 0) months"

text \<open>
  The cost of the resources: the total cost of the period, the hours of the company
  for the collaborators considered, and the average hourly cost.
\<close>

definition resource_cost ::
  "frame \<Rightarrow> indexed_frame \<Rightarrow> date \<Rightarrow> date \<Rightarrow> pyval list \<Rightarrow> pyval list
     \<Rightarrow> py_error + pyfloat \<times> pyfloat \<times> pyfloat" where
  "resource_cost logbook_processed compensi_df start_date end_date collaborators_for_costs
       selected_months_for_calc =
     (if collaborators_for_costs \<noteq> [] \<and> selected_months_for_calc \<noteq> []
         \<and> \<not> is_empty (body compensi_df)
      then
        (let relevant_compensi_df = relevant_compensi compensi_df collaborators_for_costs;
             total_period_cost = month_costs_sum relevant_compensi_df selected_months_for_calc
         in bind_result
              (filter_data (Some logbook_processed) (Some start_date) (Some end_date)
                 (Some collaborators_for_costs) None None None None)
              (\<lambda>company_hours_df.
                 bind_result (minutes_hours company_hours_df)
                   (\<lambda>total_company_hours.
                      Inr (total_period_cost, total_company_hours,
                           if positive total_company_hours
                           then fdiv total_period_cost total_company_hours
                           else Finite 0))))
      else Inr (Finite 0, Finite 0, Finite 0))"

text \<open>The revenue of one client row over the months, added to the running total.\<close>

definition add_client_revenue :: "frame \<Rightarrow> pyval list \<Rightarrow> pyfloat \<Rightarrow> pyfloat" where
  "add_client_revenue client_row_data months so_far =
     foldl (\<lambda>acc month_name.
              case month_column month_name (columns client_row_data) of
                None \<Rightarrow> acc
              | Some c \<Rightarrow>
                  fadd acc (float_sum (map (\<lambda>r. convert_eu_to_number (r c))
                                         (rows client_row_data))))
       so_far months"

definition revenue ::
  "(pyval \<rightharpoonup> pyval) \<Rightarrow> frame \<Rightarrow> pyval list \<Rightarrow> pyval list \<Rightarrow> py_error + pyfloat" where
  "revenue client_map clienti_df clients_for_revenue selected_months_for_calc =
     (if selected_months_for_calc \<noteq> [] \<and> clients_for_revenue \<noteq> [] \<and> \<not> is_empty clienti_df
      then
        foldl (\<lambda>acc cl.
                 bind_result acc
                   (\<lambda>so_far.
                      bind_result (find_client_row (Some clienti_df) (dict_get client_map cl cl))
                        (\<lambda>found.
                           case found of
                             None \<Rightarrow> Inr so_far
                           | Some client_row_data \<Rightarrow>
                               if is_empty client_row_data then Inr so_far
                               else Inr (add_client_revenue client_row_data
                                           selected_months_for_calc so_far))))
          (Inr (Finite 0)) clients_for_revenue
      else Inr (Finite 0))"

text \<open>
  The section of \<open>main\<close> that computes the key metrics, from the months touched to the
  margin.
\<close>

definition main_metrics ::
  "frame \<Rightarrow> frame \<Rightarrow> indexed_frame \<Rightarrow> (pyval \<rightharpoonup> pyval) \<Rightarrow> date \<Rightarrow> date \<Rightarrow> frame
     \<Rightarrow> pyval list \<Rightarrow> pyval list \<Rightarrow> py_error + metrics" where
  "main_metrics logbook_processed clienti_df compensi_df client_map start_date end_date
       filtered_df collaborators_for_costs clients_for_revenue =
     (let selected_months_for_calc = selected_months filtered_df
      in bind_result (minutes_hours filtered_df)
           (\<lambda>hours.
              bind_result (resource_cost logbook_processed compensi_df start_date end_date
                             collaborators_for_costs selected_months_for_calc)
                (\<lambda>(period_cost, company_hours, average_cost).
                   bind_result (revenue client_map clienti_df clients_for_revenue
                                  selected_months_for_calc)
                     (\<lambda>rev_total.
                        Inr \<lparr>total_hours = hours,
                             total_period_cost_for_selected_collaborators = period_cost,
                             total_company_hours_for_selected_collaborators = company_hours,
                             average_hourly_cost_for_selected_collaborators = average_cost,
                             filtered_hours_cost = fmul hours average_cost,
                             total_revenue = rev_total,
                             margin = fsub rev_total (fmul hours average_cost),
                             margin_percentage =
                               (if nonzero rev_total
                                then fmul (fdiv (fsub rev_total (fmul hours average_cost))
                                             rev_total) (Finite 100)
                                else Finite 0)\<rparr>))))"

subsection \<open>main\<close>

text \<open>\<open>xs if xs else None\<close>, and the sorted distinct values of a column.\<close>

definition or_none :: "pyval list \<Rightarrow> pyval list option" where
  "or_none xs = (if xs = [] then None else Some xs)"

definition sorted_unique :: "frame \<Rightarrow> ustr \<Rightarrow> py_error + pyval list" where
  "sorted_unique df col = bind_result (get_column df col) (\<lambda>vs. py_sorted (unique vs))"

definition active_values :: "frame \<Rightarrow> ustr \<Rightarrow> py_error + pyval list" where
  "active_values df col = (if \<not> is_empty df then sorted_unique df col else Inr [])"

text \<open>
  \<open>main\<close>, from the loading of the sheets to the key metrics. The arguments after the
  spreadsheet are what the user enters in the sidebar: the two dates of the period and
  the selections of clients, departments, macro activities and collaborators, each
  one a list that may be empty.
\<close>

definition main ::
  "lc_time \<Rightarrow> spreadsheet option \<Rightarrow> date \<Rightarrow> date \<Rightarrow> pyval list \<Rightarrow> pyval list \<Rightarrow> pyval list
     \<Rightarrow> pyval list \<Rightarrow> py_error + metrics" where
  "main lc client start_date end_date selected_clients selected_departments selected_macro
       selected_collaborators =
     (case load_sheets_data client of
        (Some logbook_df, Some clienti_df, Some compensi_df, mapping_df) \<Rightarrow>
          (let client_map = client_map_of mapping_df;
               logbook_processed = add_month_key (process_logbook lc (Some logbook_df))
           in if is_empty logbook_processed then Inl StopApp
              else if U ''Data'' \<notin> set (columns logbook_processed)
                      \<or> list_all (\<lambda>r. isna (r (U ''Data''))) (rows logbook_processed)
              then Inl StopApp
              else if \<not> date_le start_date end_date then Inl StopApp
              else
                bind_result
                  (filter_data (Some logbook_processed) (Some start_date) (Some end_date)
                     None None None None None)
                  (\<lambda>date_filtered_df.
                bind_result (active_values date_filtered_df (U ''Cliente''))
                  (\<lambda>active_clients.
                bind_result (sorted_unique logbook_processed (U ''Cliente''))
                  (\<lambda>clients_options.
                bind_result (sorted_unique logbook_processed
                               (if U ''Reparto'' \<in> set (columns logbook_processed)
                                then U ''Reparto'' else U ''Reparto1''))
                  (\<lambda>departments.
                bind_result (sorted_unique logbook_processed (U ''Macro attivit'' @ [224]))
                  (\<lambda>macro_activities.
                bind_result
                  (filter_data (Some logbook_processed) (Some start_date) (Some end_date)
                     None (or_none selected_departments) (or_none selected_macro) None
                     (or_none selected_clients))
                  (\<lambda>pre_filtered_df.
                bind_result (active_values pre_filtered_df (U ''Nome''))
                  (\<lambda>active_collaborators.
                bind_result (sorted_unique logbook_processed (U ''Nome''))
                  (\<lambda>collaborators_options.
                bind_result
                  (filter_data (Some logbook_processed) (Some start_date) (Some end_date)
                     (or_none selected_collaborators) (or_none selected_departments)
                     (or_none selected_macro) None (or_none selected_clients))
                  (\<lambda>filtered_df.
                     main_metrics logbook_processed clienti_df compensi_df client_map
                       start_date end_date filtered_df
                       (if selected_collaborators \<noteq> [] then selected_collaborators
                        else active_collaborators)
                       (if selected_clients \<noteq> [] then selected_clients
                        else active_clients)))))))))))
      | _ \<Rightarrow> Inl StopApp)"

section \<open>Properties\<close>

lemma U_eq_iff: "U a = U b \<longleftrightarrow> a = b"
  unfolding U_def by (simp add: inj_on_def)

lemmas lit_simps =
  U_def euro_def is_space_def is_digit_def strip_def replace_char_def remove_char_def
  nat_of_digits_def parse_decimal_def py_float_def eu_clean_def strip_ascii_def
  is_space_ascii_def float_from_string_inner_def parse_inf_or_nan_def lower_ascii_def
  decimal_value_def decimal_zeros_def

subsection \<open>Rounding to a double\<close>

lemma round_half_even_int: "round_half_even (of_int k) = k"
  by (simp add: round_half_even_def)

lemma round_half_even_near: "\<bar>of_int (round_half_even y) - (y::real)\<bar> \<le> 1 / 2"
  unfolding round_half_even_def Let_def by (auto; linarith)

lemma round_half_even_mono: "x \<le> y \<Longrightarrow> round_half_even x \<le> round_half_even y"
proof -
  assume xy: "x \<le> y"
  have fl: "\<lfloor>x\<rfloor> \<le> \<lfloor>y\<rfloor>" using xy by (rule floor_mono)
  show ?thesis
  proof (cases "\<lfloor>x\<rfloor> = \<lfloor>y\<rfloor>")
    case True
    then show ?thesis using xy unfolding round_half_even_def Let_def by auto
  next
    case False
    then have "\<lfloor>x\<rfloor> + 1 \<le> \<lfloor>y\<rfloor>" using fl by linarith
    moreover have "round_half_even x \<le> \<lfloor>x\<rfloor> + 1" unfolding round_half_even_def Let_def by auto
    moreover have "\<lfloor>y\<rfloor> \<le> round_half_even y" unfolding round_half_even_def Let_def by auto
    ultimately show ?thesis by linarith
  qed
qed

lemma quantum_pos: "0 < quantum x" by (simp add: quantum_def)

lemma quantum_eq:
  assumes "2 powr of_int e \<le> \<bar>x\<bar>" "\<bar>x\<bar> < 2 powr (of_int e + 1)" "- 1022 \<le> e"
  shows "quantum x = 2 powr (of_int e - 52)"
proof -
  have pos: "0 < \<bar>x\<bar>" using assms(1) by (smt (verit) powr_gt_zero)
  have "of_int e \<le> log 2 \<bar>x\<bar>" using assms(1) pos by (simp add: le_log_iff)
  moreover have "log 2 \<bar>x\<bar> < of_int e + 1" using assms(2) pos by (simp add: log_less_iff)
  ultimately have "\<lfloor>log 2 \<bar>x\<bar>\<rfloor> = e" by linarith
  then show ?thesis using assms(3) by (simp add: quantum_def)
qed

lemma log_floor_bounds:
  assumes "x \<noteq> 0"
  shows "2 powr of_int \<lfloor>log 2 \<bar>x\<bar>\<rfloor> \<le> \<bar>x\<bar>" "\<bar>x\<bar> < 2 powr (of_int \<lfloor>log 2 \<bar>x\<bar>\<rfloor> + 1)"
proof -
  have pos: "0 < \<bar>x\<bar>" using assms by simp
  show "2 powr of_int \<lfloor>log 2 \<bar>x\<bar>\<rfloor> \<le> \<bar>x\<bar>"
    using le_log_iff[of 2 "\<bar>x\<bar>" "of_int \<lfloor>log 2 \<bar>x\<bar>\<rfloor>"] pos by simp
  have "log 2 \<bar>x\<bar> < of_int \<lfloor>log 2 \<bar>x\<bar>\<rfloor> + 1" by linarith
  then show "\<bar>x\<bar> < 2 powr (of_int \<lfloor>log 2 \<bar>x\<bar>\<rfloor> + 1)"
    using log_less_iff[of 2 "\<bar>x\<bar>" "of_int \<lfloor>log 2 \<bar>x\<bar>\<rfloor> + 1"] pos by simp
qed

lemma two_powr_neg: "(2::real) powr (of_int e - of_nat k) = 2 powr of_int e / 2 ^ k"
  by (simp add: powr_diff powr_realpow)

lemma quantum_le:
  assumes "2 powr (- 1022) \<le> \<bar>x\<bar>"
  shows "quantum x \<le> \<bar>x\<bar> / 2 ^ 52"
proof -
  have nz: "x \<noteq> 0" using assms by (smt (verit) powr_gt_zero)
  have pos: "0 < \<bar>x\<bar>" using nz by simp
  have "- 1022 \<le> log 2 \<bar>x\<bar>" using le_log_iff[of 2 "\<bar>x\<bar>" "- 1022"] assms pos by simp
  then have ge: "- 1022 \<le> \<lfloor>log 2 \<bar>x\<bar>\<rfloor>" by linarith
  then have q: "quantum x = 2 powr (of_int \<lfloor>log 2 \<bar>x\<bar>\<rfloor> - of_nat 52)"
    by (simp add: quantum_def max_absorb1)
  have "quantum x = 2 powr of_int \<lfloor>log 2 \<bar>x\<bar>\<rfloor> / 2 ^ 52"
    unfolding q two_powr_neg by simp
  also have "\<dots> \<le> \<bar>x\<bar> / 2 ^ 52"
    using log_floor_bounds(1)[OF nz] by (simp add: divide_right_mono)
  finally show ?thesis .
qed

lemma round_quantum_error:
  "\<bar>of_int (round_half_even (x / quantum x)) * quantum x - x\<bar> \<le> quantum x / 2"
proof -
  have q: "0 < quantum x" by (rule quantum_pos)
  have "of_int (round_half_even (x / quantum x)) * quantum x - x
        = (of_int (round_half_even (x / quantum x)) - x / quantum x) * quantum x"
    using q by (simp add: algebra_simps)
  then have "\<bar>of_int (round_half_even (x / quantum x)) * quantum x - x\<bar>
        = \<bar>of_int (round_half_even (x / quantum x)) - x / quantum x\<bar> * quantum x"
    using q by (simp add: abs_mult)
  also have "\<dots> \<le> (1 / 2) * quantum x"
    using round_half_even_near[of "x / quantum x"] q by (intro mult_right_mono) auto
  finally show ?thesis by simp
qed

lemma round_to_double_error:
  assumes lo: "2 powr (- 1022) \<le> \<bar>x\<bar>" and hi: "\<bar>x\<bar> \<le> 2 ^ 1023"
  shows "\<exists>y. round_to_double x = Finite y \<and> \<bar>y - x\<bar> \<le> \<bar>x\<bar> / 2 ^ 53"
proof -
  define y where "y = of_int (round_half_even (x / quantum x)) * quantum x"
  have nz: "x \<noteq> 0" using lo by (smt (verit) powr_gt_zero)
  have "\<bar>y - x\<bar> \<le> quantum x / 2" unfolding y_def by (rule round_quantum_error)
  also have "\<dots> \<le> (\<bar>x\<bar> / 2 ^ 52) / 2" using quantum_le[OF lo] by simp
  also have "\<dots> = \<bar>x\<bar> / 2 ^ 53" by simp
  finally have err: "\<bar>y - x\<bar> \<le> \<bar>x\<bar> / 2 ^ 53" .
  have "\<bar>x\<bar> / 2 ^ 53 \<le> \<bar>x\<bar> / 2" by (intro divide_left_mono) auto
  then have "\<bar>y\<bar> \<le> \<bar>x\<bar> + \<bar>x\<bar> / 2" using err by linarith
  also have "\<dots> < 2 * \<bar>x\<bar>" using nz by simp
  also have "\<dots> \<le> 2 * 2 ^ 1023" using hi by simp
  finally have "\<bar>y\<bar> < 2 ^ 1024" by simp
  then have "round_to_double x = Finite y"
    using nz unfolding round_to_double_def y_def[symmetric] Let_def by simp
  then show ?thesis using err by blast
qed

lemma round_half_even_unique: "\<bar>y - of_int m\<bar> < 1 / 2 \<Longrightarrow> round_half_even y = m"
proof -
  assume a: "\<bar>y - of_int m\<bar> < 1 / 2"
  have "\<lfloor>y\<rfloor> = m \<or> \<lfloor>y\<rfloor> = m - 1" using a by linarith
  then show ?thesis
  proof
    assume f: "\<lfloor>y\<rfloor> = m"
    then have "y - of_int m < 1 / 2" using a by linarith
    then show ?thesis unfolding round_half_even_def Let_def f by simp
  next
    assume f: "\<lfloor>y\<rfloor> = m - 1"
    have "1 / 2 < y - (of_int m - 1)" using a by linarith
    then show ?thesis unfolding round_half_even_def Let_def f by simp
  qed
qed

lemma round_to_double_exact:
  assumes x: "x = of_int m * 2 powr of_int k" and m: "\<bar>m\<bar> < 2 ^ 53" and k: "- 1074 \<le> k"
    and hi: "\<bar>x\<bar> < 2 ^ 1024"
  shows "round_to_double x = Finite x"
proof (cases "x = 0")
  case True
  then show ?thesis by (simp add: round_to_double_def)
next
  case False
  define e where "e = max \<lfloor>log 2 \<bar>x\<bar>\<rfloor> (- 1022)"
  have q: "quantum x = 2 powr (of_int (e - 52))" by (simp add: quantum_def e_def)
  have pos: "0 < \<bar>x\<bar>" using False by simp
  have "\<bar>x\<bar> = of_int \<bar>m\<bar> * 2 powr of_int k" unfolding x by (simp add: abs_mult)
  also have "\<dots> < 2 ^ 53 * 2 powr of_int k"
  proof -
    have "(of_int \<bar>m\<bar> :: real) < of_int (2 ^ 53)" using m by (simp only: of_int_less_iff)
    then show ?thesis by simp
  qed
  also have "\<dots> = 2 powr (of_int k + 53)" by (simp add: powr_add powr_realpow)
  finally have "\<bar>x\<bar> < 2 powr (of_int k + 53)" .
  then have "log 2 \<bar>x\<bar> < of_int k + 53"
    using log_less_iff[of 2 "\<bar>x\<bar>" "of_int k + 53"] pos by simp
  then have "\<lfloor>log 2 \<bar>x\<bar>\<rfloor> \<le> k + 52" by linarith
  then have ek: "e - 52 \<le> k" using k unfolding e_def by simp
  define j where "j = nat (k - (e - 52))"
  have kj: "of_int k = of_int (e - 52) + (of_nat j :: real)" using ek unfolding j_def by simp
  have "x / quantum x = of_int m * (2 powr of_int k / 2 powr of_int (e - 52))" unfolding q by (simp add: x)
  also have "2 powr of_int k / 2 powr of_int (e - 52) = (2::real) ^ j"
    unfolding kj by (simp add: powr_add powr_realpow)
  finally have "x / quantum x = of_int (m * 2 ^ j)" by simp
  then have "round_half_even (x / quantum x) = m * 2 ^ j" by (simp only: round_half_even_int)
  then have "of_int (round_half_even (x / quantum x)) * quantum x = (x / quantum x) * quantum x"
    using \<open>x / quantum x = of_int (m * 2 ^ j)\<close> by simp
  also have "\<dots> = x" using quantum_pos[of x] by simp
  finally have y: "of_int (round_half_even (x / quantum x)) * quantum x = x" .
  show ?thesis using False hi unfolding round_to_double_def Let_def y by simp
qed

lemma round_to_double_int:
  assumes "\<bar>m\<bar> < 2 ^ 53"
  shows "round_to_double (of_int m) = Finite (of_int m)"
proof -
  have "\<bar>of_int m :: real\<bar> < of_int (2 ^ 53)" using assms by (simp only: of_int_abs[symmetric] of_int_less_iff)
  also have "\<dots> \<le> (2::real) ^ 1024" by simp
  finally have "\<bar>of_int m :: real\<bar> < 2 ^ 1024" .
  then show ?thesis using round_to_double_exact[of "of_int m" m 0] assms by simp
qed

lemma round_to_double_overflow:
  assumes "2 ^ 1024 \<le> x"
  shows "round_to_double x = PosInf"
proof -
  have pos: "0 < x" using assms by (smt (verit) zero_less_power)
  define e where "e = \<lfloor>log 2 \<bar>x\<bar>\<rfloor>"
  have "(2::real) powr 1024 \<le> \<bar>x\<bar>" using assms pos by (simp add: powr_realpow)
  then have "1024 \<le> log 2 \<bar>x\<bar>" using le_log_iff[of 2 "\<bar>x\<bar>" 1024] pos by simp
  then have e: "1024 \<le> e" unfolding e_def by linarith
  then have q: "quantum x = 2 powr (of_int e - of_nat 52)" by (simp add: quantum_def e_def max_absorb1)
  have le: "2 powr of_int e \<le> \<bar>x\<bar>" unfolding e_def using log_floor_bounds(1)[of x] pos by simp
  have qq: "quantum x = 2 powr of_int e / 2 ^ 52" unfolding q two_powr_neg by simp
  have "of_int (2 ^ 52) = (2 powr of_int e) / quantum x" unfolding qq by simp
  also have "\<dots> \<le> x / quantum x" using le pos quantum_pos[of x] by (simp add: divide_right_mono)
  finally have "round_half_even (of_int (2 ^ 52)) \<le> round_half_even (x / quantum x)"
    by (rule round_half_even_mono)
  then have "2 ^ 52 \<le> round_half_even (x / quantum x)" by (simp only: round_half_even_int)
  then have "(of_int (2 ^ 52) :: real) \<le> of_int (round_half_even (x / quantum x))" by (simp only: of_int_le_iff)
  then have "of_int (2 ^ 52) * quantum x \<le> of_int (round_half_even (x / quantum x)) * quantum x"
    using quantum_pos[of x] by (simp only: mult_le_cancel_right_pos)
  moreover have "of_int (2 ^ 52) * quantum x = 2 powr of_int e" unfolding qq by simp
  moreover have "(2::real) ^ 1024 \<le> 2 powr of_int e"
  proof -
    have "(1024::real) \<le> of_int e" using e by simp
    then have "(2::real) powr 1024 \<le> 2 powr of_int e" by (rule powr_mono) simp
    then show ?thesis by simp
  qed
  ultimately have "2 ^ 1024 \<le> of_int (round_half_even (x / quantum x)) * quantum x" by linarith
  then have "2 ^ 1024 \<le> \<bar>of_int (round_half_even (x / quantum x)) * quantum x\<bar>" by linarith
  then show ?thesis using pos unfolding round_to_double_def Let_def by simp
qed

subsection \<open>The monetary parser\<close>

lemma round_to_double_halves:
  assumes "\<bar>m\<bar> < 2 ^ 53"
  shows "round_to_double (of_int m / 2) = Finite (of_int m / 2)"
proof -
  have "\<bar>of_int m :: real\<bar> < of_int (2 ^ 53)"
    using assms by (simp only: of_int_abs[symmetric] of_int_less_iff)
  moreover have "(of_int (2 ^ 53) :: real) = 2 ^ 53" by simp
  moreover have "(2::real) ^ 53 \<le> 2 ^ 1024" by (rule power_increasing) simp_all
  moreover have "\<bar>of_int m / 2 :: real\<bar> \<le> \<bar>of_int m\<bar>" by simp
  ultimately have hi: "\<bar>of_int m / 2 :: real\<bar> < 2 ^ 1024" by linarith
  have x: "(of_int m / 2 :: real) = of_int m * 2 powr of_int (- 1)" by (simp add: powr_minus)
  have k: "(- 1074 :: int) \<le> - 1" by simp
  show ?thesis by (rule round_to_double_exact[OF x assms k hi])
qed

text \<open>
  C7. The monetary parser never raises: its result is a double for every argument,
  because the only exception of its body, the \<open>ValueError\<close> of \<open>float\<close>, is caught. It
  reads \<open>"\<euro> 1.234,56"\<close> as the double 1234.56, and gives 0 for the empty string, for
  \<open>None\<close>, for \<open>"bad"\<close>, for every argument that is not a string and for every
  string whose cleaned text \<open>float\<close> rejects; for any other string it gives what
  \<open>float\<close> reads. So \<open>"nan"\<close> gives \<open>nan\<close>, \<open>"Infinity"\<close> and \<open>"1e400"\<close> give
  \<open>inf\<close>, \<open>"1_000,50"\<close> gives 1000.5 and the fullwidth \<open>"12"\<close> gives 12, while a
  point, the separator 0x1C and \<open>"5,0"\<close> give 0.
\<close>

theorem convert_eu_to_number_total:
  "convert_eu_to_number (PStr (euro # U '' 1.234,56'')) = round_to_double (123456 / 100)
   \<and> (\<exists>y. round_to_double (123456 / 100) = Finite y \<and> \<bar>y - 123456 / 100\<bar> \<le> 1 / 2 ^ 42)
   \<and> convert_eu_to_number (PStr []) = Finite 0
   \<and> convert_eu_to_number PNone = Finite 0
   \<and> convert_eu_to_number (PStr (U ''bad'')) = Finite 0
   \<and> (\<forall>v. (\<forall>s. v \<noteq> PStr s) \<longrightarrow> convert_eu_to_number v = Finite 0)
   \<and> (\<forall>s e. py_float (eu_clean s) = Inl e \<longrightarrow> convert_eu_to_number (PStr s) = Finite 0)
   \<and> (\<forall>s x. py_float (eu_clean s) = Inr x \<longrightarrow> convert_eu_to_number (PStr s) = x)
   \<and> convert_eu_to_number (PStr (U ''nan'')) = NaN
   \<and> convert_eu_to_number (PStr (U ''Infinity'')) = PosInf
   \<and> convert_eu_to_number (PStr (U ''1e400'')) = PosInf
   \<and> convert_eu_to_number (PStr (U ''1_000,50'')) = Finite (2001 / 2)
   \<and> convert_eu_to_number (PStr [65297, 65298]) = Finite 12
   \<and> convert_eu_to_number (PStr (46 # 28 # U ''5,0'')) = Finite 0"
proof -
  have a: "convert_eu_to_number (PStr (euro # U '' 1.234,56'')) = round_to_double (123456 / 100)"
    by (simp add: lit_simps)
  have a': "\<exists>y. round_to_double (123456 / 100) = Finite y \<and> \<bar>y - 123456 / 100\<bar> \<le> 1 / 2 ^ 42"
  proof -
    have "(2::real) powr (- 1022) \<le> 1" by (simp add: powr_minus)
    then have "2 powr (- 1022) \<le> \<bar>123456 / 100 :: real\<bar>" by simp
    moreover have "\<bar>123456 / 100 :: real\<bar> \<le> 2 ^ 1023" by simp
    ultimately obtain y where y: "round_to_double (123456 / 100) = Finite y"
      and e: "\<bar>y - 123456 / 100\<bar> \<le> \<bar>123456 / 100 :: real\<bar> / 2 ^ 53"
      using round_to_double_error[of "123456 / 100"] by blast
    have "\<bar>123456 / 100 :: real\<bar> / 2 ^ 53 \<le> 1 / 2 ^ 42" by simp
    with y e show ?thesis by (intro exI[of _ y]) linarith
  qed
  have b: "convert_eu_to_number (PStr []) = Finite 0"
    by (simp add: lit_simps)
  have c: "convert_eu_to_number (PStr (U ''bad'')) = Finite 0"
    by (simp add: lit_simps)
  have d: "convert_eu_to_number v = Finite 0" if "\<forall>s. v \<noteq> PStr s" for v
    using that by (cases v) simp_all
  have e: "convert_eu_to_number (PStr s) = Finite 0" if "py_float (eu_clean s) = Inl e" for s e
    using that by simp
  have f: "convert_eu_to_number (PStr s) = x" if "py_float (eu_clean s) = Inr x" for s x
    using that by simp
  have g: "convert_eu_to_number (PStr (U ''nan'')) = NaN"
    by (simp add: lit_simps)
  have h: "convert_eu_to_number (PStr (U ''Infinity'')) = PosInf"
    by (simp add: lit_simps)
  have "(2::real) ^ 1024 \<le> 10 ^ 400" by simp
  then have "round_to_double (10 ^ 400) = PosInf" by (rule round_to_double_overflow)
  then have i: "convert_eu_to_number (PStr (U ''1e400'')) = PosInf"
    by (simp add: lit_simps)
  have "round_to_double (of_int 2001 / 2) = Finite (of_int 2001 / 2)"
    by (rule round_to_double_halves) simp
  then have j: "convert_eu_to_number (PStr (U ''1_000,50'')) = Finite (2001 / 2)"
    by (simp add: lit_simps)
  have "round_to_double (of_int 12) = Finite (of_int 12)"
    by (rule round_to_double_int) simp
  then have k: "convert_eu_to_number (PStr [65297, 65298]) = Finite 12"
    by (simp add: lit_simps)
  have l: "convert_eu_to_number (PStr (46 # 28 # U ''5,0'')) = Finite 0"
    by (simp add: lit_simps)
  have d': "\<forall>v. (\<forall>s. v \<noteq> PStr s) \<longrightarrow> convert_eu_to_number v = Finite 0"
    using d by blast
  have e': "\<forall>s e. py_float (eu_clean s) = Inl e \<longrightarrow> convert_eu_to_number (PStr s) = Finite 0"
    using e by blast
  have f': "\<forall>s x. py_float (eu_clean s) = Inr x \<longrightarrow> convert_eu_to_number (PStr s) = x"
    using f by blast
  have n: "convert_eu_to_number PNone = Finite 0" by simp
  show ?thesis by (intro conjI a a' b n c d' e' f' g h i j k l)
qed

theorem convert_eu_to_number_total_witness:
  "py_float (eu_clean (U ''12,3,4'')) = Inl ValueError
   \<and> convert_eu_to_number (PStr (U ''12,3,4'')) = Finite 0
   \<and> py_float (eu_clean (U ''-inf'')) = Inr NegInf
   \<and> convert_eu_to_number (PStr (U ''-inf'')) = NegInf
   \<and> convert_eu_to_number (PNum (Finite 5)) = Finite 0"
proof -
  have h: "py_float (eu_clean (U ''12,3,4'')) = Inl ValueError"
    by (simp add: lit_simps)
  have h': "py_float (eu_clean (U ''-inf'')) = Inr NegInf"
    by (simp add: lit_simps)
  note t = convert_eu_to_number_total
  have n: "\<forall>v. (\<forall>s. v \<noteq> PStr s) \<longrightarrow> convert_eu_to_number v = Finite 0"
    by (rule t[THEN conjunct2, THEN conjunct2, THEN conjunct2, THEN conjunct2, THEN conjunct2,
               THEN conjunct1])
  have g: "\<forall>s e. py_float (eu_clean s) = Inl e \<longrightarrow> convert_eu_to_number (PStr s) = Finite 0"
    by (rule t[THEN conjunct2, THEN conjunct2, THEN conjunct2, THEN conjunct2, THEN conjunct2,
               THEN conjunct2, THEN conjunct1])
  have g': "\<forall>s x. py_float (eu_clean s) = Inr x \<longrightarrow> convert_eu_to_number (PStr s) = x"
    by (rule t[THEN conjunct2, THEN conjunct2, THEN conjunct2, THEN conjunct2, THEN conjunct2,
               THEN conjunct2, THEN conjunct2, THEN conjunct1])
  from g h have 1: "convert_eu_to_number (PStr (U ''12,3,4'')) = Finite 0" by blast
  from g' h' have 2: "convert_eu_to_number (PStr (U ''-inf'')) = NegInf" by blast
  from n have 3: "convert_eu_to_number (PNum (Finite 5)) = Finite 0" by simp
  show ?thesis by (intro conjI h 1 h' 2 3)
qed

subsection \<open>Digits, grouping and the round trip of amounts\<close>

lemma digits_of_nat_digits: "list_all is_digit (digits_of_nat n)"
proof (induction n rule: digits_of_nat.induct)
  case (1 n)
  have a: "is_digit (48 + n mod 10)"
    unfolding is_digit_def by arith
  have b: "n < 10 \<Longrightarrow> is_digit (48 + n)"
    unfolding is_digit_def by arith
  from 1 a b show ?case
    by (subst digits_of_nat.simps) simp
qed

lemma digits_of_nat_nonempty: "digits_of_nat n \<noteq> []"
  by (subst digits_of_nat.simps) simp

lemma nat_of_digits_snoc: "nat_of_digits (xs @ [c]) = 10 * nat_of_digits xs + (c - 48)"
  by (simp add: nat_of_digits_def)

lemma nat_of_digits_of_nat: "nat_of_digits (digits_of_nat n) = n"
proof (induction n rule: digits_of_nat.induct)
  case (1 n)
  show ?case
  proof (cases "n < 10")
    case True
    then show ?thesis by (subst digits_of_nat.simps) (simp add: nat_of_digits_def)
  next
    case False
    then have "nat_of_digits (digits_of_nat n) = 10 * nat_of_digits (digits_of_nat (n div 10)) + n mod 10"
      by (subst digits_of_nat.simps) (simp add: nat_of_digits_snoc)
    with 1 False show ?thesis by simp
  qed
qed

lemma nat_of_digits_two: "k < 100 \<Longrightarrow> nat_of_digits (xs @ two_digits k) = 100 * nat_of_digits xs + k"
proof -
  assume "k < 100"
  have "xs @ two_digits k = (xs @ [48 + k div 10]) @ [48 + k mod 10]"
    by (simp add: two_digits_def)
  then show ?thesis by (simp only: nat_of_digits_snoc) simp
qed

lemma two_digits_digits: "k < 100 \<Longrightarrow> list_all is_digit (two_digits k)"
  by (simp add: two_digits_def is_digit_def) arith

lemma group3_rev_filter: "44 \<notin> set xs \<Longrightarrow> filter (\<lambda>x. x \<noteq> 44) (group3_rev xs) = xs"
  by (induction xs rule: group3_rev.induct) auto

lemma group3_rev_set: "set (group3_rev xs) \<subseteq> insert 44 (set xs)"
  by (induction xs rule: group3_rev.induct) auto

lemma group3_filter: "44 \<notin> set ds \<Longrightarrow> filter (\<lambda>x. x \<noteq> 44) (group3 ds) = ds"
  by (simp add: group3_def rev_filter [symmetric] group3_rev_filter)

lemma group3_set: "set (group3 ds) \<subseteq> insert 44 (set ds)"
  using group3_rev_set [of "rev ds"] by (simp add: group3_def)

lemma group3_nonempty: "ds \<noteq> [] \<Longrightarrow> group3 ds \<noteq> []"
  by (cases "rev ds" rule: group3_rev.cases) (auto simp: group3_def)

lemma dropWhile_none: "\<forall>c\<in>set s. \<not> P c \<Longrightarrow> dropWhile P s = s"
  by (cases s) auto

lemma strip_id: "\<forall>c\<in>set s. \<not> is_space c \<Longrightarrow> strip s = s"
  by (simp add: strip_def dropWhile_none)

lemma strip_trailing_space:
  assumes "\<forall>c\<in>set s. \<not> is_space c"
  shows "strip (s @ [32]) = s"
proof (cases s)
  case Nil
  then show ?thesis by (simp add: strip_def is_space_def)
next
  case (Cons c t)
  with assms have "dropWhile is_space (s @ [32]) = s @ [32]"
    by simp
  moreover have "dropWhile is_space (32 # rev s) = rev s"
    using assms by (simp add: is_space_def dropWhile_none)
  ultimately show ?thesis by (simp add: strip_def)
qed

lemma replace_chain: "replace_char 88 46 (replace_char 46 44 (replace_char 44 88 s)) = map swap_marks s"
  by (simp add: replace_char_def swap_marks_def)

lemma swap_marks_digit: "is_digit c \<Longrightarrow> swap_marks c = c"
  by (auto simp: swap_marks_def is_digit_def)

lemma map_swap_digits: "list_all is_digit ds \<Longrightarrow> map swap_marks ds = ds"
  by (induction ds) (simp_all add: swap_marks_digit)

lemma group3_chars:
  assumes "list_all is_digit ds"
  shows "\<forall>x\<in>set (group3 ds). x = 44 \<or> is_digit x"
proof
  fix x assume "x \<in> set (group3 ds)"
  with group3_set [of ds] have "x = 44 \<or> x \<in> set ds" by blast
  with assms show "x = 44 \<or> is_digit x" by (auto simp: list_all_iff)
qed

lemma grouped_filter:
  assumes "list_all is_digit ds"
  shows "filter (\<lambda>x. x \<noteq> 46) (map swap_marks (group3 ds)) = ds"
proof -
  have d: "\<forall>x\<in>set ds. is_digit x" using assms by (simp add: list_all_iff)
  then have n44: "44 \<notin> set ds" by (auto simp: is_digit_def)
  have "\<forall>x\<in>set (group3 ds). (swap_marks x \<noteq> 46) = (x \<noteq> 44)"
    using group3_chars [OF assms] by (auto simp: swap_marks_def is_digit_def)
  then have "filter (\<lambda>x. x \<noteq> 46) (map swap_marks (group3 ds))
      = map swap_marks (filter (\<lambda>x. x \<noteq> 44) (group3 ds))"
    by (simp add: filter_map comp_def cong: filter_cong)
  then show ?thesis using n44 assms by (simp add: group3_filter map_swap_digits)
qed

lemma grouped_chars:
  assumes "list_all is_digit ds"
  shows "\<forall>x\<in>set (map swap_marks (group3 ds)). is_digit x \<or> x = 46"
  using group3_chars [OF assms] by (auto simp: swap_marks_def is_digit_def)


lemma format_currency_cents:
  assumes "0 \<le> y" "round_half_even (y * 100) = int n"
  shows "format_currency (PNum (Finite y)) =
     map swap_marks (group3 (digits_of_nat (n div 100))) @ [44] @ two_digits (n mod 100) @ [32, euro]"
proof -
  have "n mod 100 < 100" by simp
  then have t: "map swap_marks (two_digits (n mod 100)) = two_digits (n mod 100)"
    by (intro map_swap_digits two_digits_digits)
  have "\<bar>y\<bar> = y" "\<not> y < 0" using assms(1) by simp_all
  then have "format_fixed2 y =
      group3 (digits_of_nat (n div 100)) @ [46] @ two_digits (n mod 100)"
    by (simp add: format_fixed2_def assms(2) Let_def)
  then show ?thesis
    using t by (simp add: format_currency_def replace_chain) (simp add: swap_marks_def euro_def)
qed

lemma takeWhile_digits_point:
  "list_all is_digit ds \<Longrightarrow> takeWhile is_digit (ds @ 46 # r) = ds"
  by (induction ds) (simp_all add: is_digit_def)

lemma dropWhile_digits_point:
  "list_all is_digit ds \<Longrightarrow> dropWhile is_digit (ds @ 46 # r) = 46 # r"
  by (induction ds) (simp_all add: is_digit_def)

lemma takeWhile_all: "list_all P ds \<Longrightarrow> takeWhile P ds = ds"
  by (induction ds) simp_all

lemma dropWhile_all: "list_all P ds \<Longrightarrow> dropWhile P ds = []"
  by (induction ds) simp_all

lemma parse_decimal_fixed:
  assumes "ds \<noteq> []" "list_all is_digit ds" "list_all is_digit dd"
  shows "parse_decimal (ds @ 46 # dd) = Some (real (nat_of_digits (ds @ dd)) / 10 ^ length dd)"
proof -
  from assms obtain c t where ds: "ds = c # t" and c: "is_digit c"
    by (cases ds) auto
  then have s: "split_sign (ds @ 46 # dd) = (1, ds @ 46 # dd)"
    by (auto simp: is_digit_def)
  show ?thesis
    using assms
    by (simp add: parse_decimal_def s takeWhile_digits_point dropWhile_digits_point
        takeWhile_all dropWhile_all)
qed

lemma eu_clean_formatted:
  assumes "g \<noteq> []" "\<forall>x\<in>set g. is_digit x \<or> x = 46" "list_all is_digit dd"
  shows "eu_clean (g @ [44] @ dd @ [32, euro]) = filter (\<lambda>x. x \<noteq> 46) g @ 46 # dd"
proof -
  let ?a = "g @ [44] @ dd"
  have e: "\<forall>x\<in>set ?a. x \<noteq> euro \<and> \<not> is_space x \<and> (x = 44 \<or> x = 46 \<or> is_digit x)"
    using assms by (auto simp: list_all_iff is_digit_def euro_def is_space_def)
  then have "remove_char euro (?a @ [32, euro]) = ?a @ [32]"
    by (simp add: remove_char_def euro_def)
  then have r: "remove_char euro (g @ [44] @ dd @ [32, euro]) = ?a @ [32]" by simp
  have st: "strip (?a @ [32]) = ?a"
    using e by (intro strip_trailing_space) blast
  have dd: "filter (\<lambda>x. x \<noteq> 46) dd = dd" "map (\<lambda>x. if x = 44 then 46 else x) dd = dd"
    using assms(3) by (induction dd) (auto simp: is_digit_def)
  have g: "map (\<lambda>x. if x = 44 then 46 else x) (filter (\<lambda>x. x \<noteq> 46) g) = filter (\<lambda>x. x \<noteq> 46) g"
    using assms(2) by (induction g) (auto simp: is_digit_def)
  show ?thesis
    unfolding eu_clean_def r st
    by (simp add: Let_def remove_char_def replace_char_def dd g)
qed

lemma ascii_unchanged: "\<forall>c\<in>set s. c < 127 \<Longrightarrow> decimal_and_space_to_ascii s = s"
  by (induction s) simp_all

lemma strip_ascii_id: "\<forall>c\<in>set s. \<not> is_space_ascii c \<Longrightarrow> strip_ascii s = s"
  by (simp add: strip_ascii_def dropWhile_none)

lemma py_float_fixed:
  assumes "ds \<noteq> []" "list_all is_digit ds" "list_all is_digit dd"
  shows "py_float (ds @ 46 # dd) = Inr (round_to_double (real (nat_of_digits (ds @ dd)) / 10 ^ length dd))"
proof -
  have c: "\<forall>c\<in>set (ds @ 46 # dd). c < 127 \<and> \<not> is_space_ascii c \<and> c \<noteq> 95"
    using assms(2,3) by (auto simp: list_all_iff is_digit_def is_space_ascii_def)
  then have a: "decimal_and_space_to_ascii (ds @ 46 # dd) = ds @ 46 # dd"
    by (intro ascii_unchanged) blast
  have s: "strip_ascii (ds @ 46 # dd) = ds @ 46 # dd"
    using c by (intro strip_ascii_id) blast
  have u: "95 \<notin> set (ds @ 46 # dd)" using c by blast
  show ?thesis
    unfolding py_float_def a s Let_def using u
    by (simp add: float_from_string_inner_def parse_decimal_fixed [OF assms])
qed

lemma convert_format_cents:
  assumes "0 \<le> y" "round_half_even (y * 100) = int n"
  shows "convert_eu_to_number (PStr (format_currency (PNum (Finite y)))) = round_to_double (real n / 100)"
proof -
  let ?ds = "digits_of_nat (n div 100)"
  let ?dd = "two_digits (n mod 100)"
  have dg: "list_all is_digit ?ds" "?ds \<noteq> []"
    by (rule digits_of_nat_digits, rule digits_of_nat_nonempty)
  have dd: "list_all is_digit ?dd" by (rule two_digits_digits) simp
  have ne: "map swap_marks (group3 ?ds) \<noteq> []"
    using dg(2) by (simp add: group3_nonempty)
  have cl: "eu_clean (format_currency (PNum (Finite y))) = ?ds @ 46 # ?dd"
    unfolding format_currency_cents [OF assms]
    using eu_clean_formatted [OF ne grouped_chars [OF dg(1)] dd]
    by (simp add: grouped_filter [OF dg(1)])
  have v: "nat_of_digits (?ds @ ?dd) = n"
    by (simp add: nat_of_digits_two nat_of_digits_of_nat)
  have "py_float (?ds @ 46 # ?dd) = Inr (round_to_double (real n / 100))"
    unfolding py_float_fixed [OF dg(2) dg(1) dd] v
    by (simp add: two_digits_def)
  with cl show ?thesis by simp
qed

lemma grouped_replace:
  assumes "list_all is_digit ds"
  shows "map swap_marks (group3 ds) = replace_char 44 46 (group3 ds)"
  unfolding replace_char_def using group3_chars [OF assms]
  by (intro map_cong refl) (auto simp: swap_marks_def is_digit_def)

lemma round_to_double_cents:
  assumes "0 < n" "n < 2 ^ 52"
  shows "\<exists>y. round_to_double (real n / 100) = Finite y \<and> 0 < y \<and> round_half_even (y * 100) = int n"
proof -
  let ?x = "real n / 100"
  have n1: "1 \<le> real n" using assms(1) by simp
  have n2: "real n < 2 ^ 52" using assms(2) by (metis of_nat_less_iff of_nat_numeral of_nat_power)
  have "(2::real) powr (- 1022) \<le> 2 powr (- 7)" by (rule powr_mono) simp_all
  also have "\<dots> = 1 / 128" by (simp add: powr_minus)
  also have "\<dots> \<le> \<bar>?x\<bar>" using n1 by simp
  finally have lo: "2 powr (- 1022) \<le> \<bar>?x\<bar>" .
  have "(2::real) ^ 52 \<le> 2 ^ 1023" by (rule power_increasing) simp_all
  then have hi: "\<bar>?x\<bar> \<le> 2 ^ 1023" using n1 n2 by simp
  from round_to_double_error [OF lo hi] obtain y where
    y: "round_to_double ?x = Finite y" and e: "\<bar>y - ?x\<bar> \<le> \<bar>?x\<bar> / 2 ^ 53"
    by blast
  have x53: "\<bar>?x\<bar> / 2 ^ 53 = real n / (100 * 2 ^ 53)" using n1 by simp
  have "real n / (100 * 2 ^ 53) < ?x" using n1 by (simp add: field_simps)
  then have pos: "0 < y" using e x53 by linarith
  have "\<bar>y * 100 - real n\<bar> = 100 * \<bar>y - ?x\<bar>" by (simp add: abs_if field_simps)
  also have "\<dots> \<le> 100 * (real n / (100 * 2 ^ 53))" using e x53 by simp
  also have "\<dots> = real n / 2 ^ 53" by simp
  also have "\<dots> < 2 ^ 52 / 2 ^ 53" using n2 by (simp add: divide_strict_right_mono)
  also have "\<dots> = 1 / 2" by simp
  finally have "\<bar>y * 100 - of_int (int n)\<bar> < 1 / 2" by simp
  then have "round_half_even (y * 100) = int n" by (rule round_half_even_unique)
  with y pos show ?thesis by blast
qed

text \<open>
  C10. Let \<open>x\<close> be the double nearest to an amount of \<open>n\<close> hundredths, for \<open>n\<close> up to
  \<open>2^52\<close>. \<open>format_currency\<close> writes \<open>x\<close> as the digits of the integer part of the
  amount grouped in threes by points, a comma, the two decimals, a space and the euro
  sign, and \<open>convert_eu_to_number\<close> reads that text back as \<open>x\<close> itself, so the round
  trip is exact. The double 1234.5 is written \<open>"1.234,50 \<euro>"\<close>.
\<close>

theorem format_currency_round_trip:
  "(\<forall>n. 0 < n \<and> n < 2 ^ 52 \<longrightarrow>
      (\<exists>y. round_to_double (real n / 100) = Finite y \<and> 0 < y)
      \<and> format_currency (PNum (round_to_double (real n / 100))) =
          replace_char 44 46 (group3 (digits_of_nat (n div 100))) @ [44]
            @ two_digits (n mod 100) @ [32, euro]
      \<and> convert_eu_to_number (PStr (format_currency (PNum (round_to_double (real n / 100)))))
          = round_to_double (real n / 100))
   \<and> round_to_double (12345 / 10) = Finite (12345 / 10)
   \<and> format_currency (PNum (Finite (12345 / 10))) = U ''1.234,50 '' @ [euro]"
proof -
  have a: "format_currency (PNum (Finite (12345 / 10))) = U ''1.234,50 '' @ [euro]"
    by (simp add: format_currency_def format_fixed2_def round_half_even_def group3_def
        two_digits_def digits_of_nat.simps replace_char_def U_def euro_def)
  have "round_to_double (of_int 2469 / 2) = Finite (of_int 2469 / 2)"
    by (rule round_to_double_halves) simp
  then have r: "round_to_double (12345 / 10) = Finite (12345 / 10)" by simp
  have b: "(\<exists>y. round_to_double (real n / 100) = Finite y \<and> 0 < y)
      \<and> format_currency (PNum (round_to_double (real n / 100))) =
          replace_char 44 46 (group3 (digits_of_nat (n div 100))) @ [44]
            @ two_digits (n mod 100) @ [32, euro]
      \<and> convert_eu_to_number (PStr (format_currency (PNum (round_to_double (real n / 100)))))
          = round_to_double (real n / 100)" if "0 < n \<and> n < 2 ^ 52" for n
  proof -
    from that round_to_double_cents [of n] obtain y where
      y: "round_to_double (real n / 100) = Finite y" and pos: "0 < y"
      and rd: "round_half_even (y * 100) = int n" by blast
    have nn: "0 \<le> y" using pos by simp
    have 1: "\<exists>y. round_to_double (real n / 100) = Finite y \<and> 0 < y" using y pos by blast
    have 2: "format_currency (PNum (round_to_double (real n / 100))) =
          replace_char 44 46 (group3 (digits_of_nat (n div 100))) @ [44]
            @ two_digits (n mod 100) @ [32, euro]"
      unfolding y format_currency_cents [OF nn rd]
      by (simp only: grouped_replace [OF digits_of_nat_digits])
    have 3: "convert_eu_to_number (PStr (format_currency (PNum (round_to_double (real n / 100)))))
          = round_to_double (real n / 100)"
      using convert_format_cents [OF nn rd] by (simp only: y)
    from 1 2 3 show ?thesis by (intro conjI)
  qed
  then have b': "\<forall>n. 0 < n \<and> n < 2 ^ 52 \<longrightarrow>
      (\<exists>y. round_to_double (real n / 100) = Finite y \<and> 0 < y)
      \<and> format_currency (PNum (round_to_double (real n / 100))) =
          replace_char 44 46 (group3 (digits_of_nat (n div 100))) @ [44]
            @ two_digits (n mod 100) @ [32, euro]
      \<and> convert_eu_to_number (PStr (format_currency (PNum (round_to_double (real n / 100)))))
          = round_to_double (real n / 100)" by (intro allI impI)
  show ?thesis by (intro conjI b' r a)
qed

theorem format_currency_round_trip_witness:
  "(0::nat) < 29 \<and> (29::nat) < 2 ^ 52
   \<and> format_currency (PNum (round_to_double (real 29 / 100))) = U ''0,29 '' @ [euro]
   \<and> convert_eu_to_number (PStr (format_currency (PNum (round_to_double (real 29 / 100)))))
       = round_to_double (real 29 / 100)"
proof -
  have p: "(0::nat) < 29 \<and> (29::nat) < 2 ^ 52" by simp
  note t = format_currency_round_trip [THEN conjunct1, rule_format, OF p]
  have f: "format_currency (PNum (round_to_double (real 29 / 100))) =
          replace_char 44 46 (group3 (digits_of_nat (29 div 100))) @ [44]
            @ two_digits (29 mod 100) @ [32, euro]"
    by (rule t [THEN conjunct2, THEN conjunct1])
  have g: "replace_char 44 46 (group3 (digits_of_nat (29 div 100))) @ [44]
            @ two_digits (29 mod 100) @ [32, euro] = U ''0,29 '' @ [euro]"
    by (simp add: group3_def two_digits_def digits_of_nat.simps replace_char_def U_def)
  have c: "convert_eu_to_number (PStr (format_currency (PNum (round_to_double (real 29 / 100)))))
       = round_to_double (real 29 / 100)"
    by (rule t [THEN conjunct2, THEN conjunct2])
  from p have p1: "(0::nat) < 29" and p2: "(29::nat) < 2 ^ 52" by simp_all
  show ?thesis by (intro conjI p1 p2 f [unfolded g] c)
qed

subsection \<open>The filter\<close>

lemma in_period_case:
  "in_period s e v = (case v of PDate dt \<Rightarrow> date_le s dt \<and> date_le dt e | _ \<Rightarrow> False)"
  by (cases v) simp_all

lemma filter_data_by_date:
  assumes "U ''Data'' \<in> set (columns d)"
    and "list_all (\<lambda>r. timestamp_or_null (r (U ''Data''))) (rows d)"
  shows "\<exists>f. filter_data (Some d) (Some s) (Some e) None None None None None = Inr f
     \<and> rows f = filter (\<lambda>r. in_period s e (r (U ''Data''))) (rows d)
     \<and> (\<not> is_empty d \<longrightarrow> columns f = columns d)"
proof (cases "is_empty d")
  case True
  with assms have "rows d = []" by (auto simp: is_empty_def)
  with True show ?thesis by (simp add: filter_data_def empty_frame_def)
next
  case False
  with assms show ?thesis by (simp add: filter_data_def select_rows_def bind_result_def)
qed

text \<open>
  C8. Take a table with a column "Data" whose cells are timestamps or nulls, as the
  processed logbook is. With every selector omitted, \<open>filter_data\<close> returns exactly
  the rows whose date is not null and lies between the start and the end of the
  period, both ends included, and keeps the columns of a table that is not empty. An
  empty list for a selector gives the same result as no selector, for each of the
  five selectors and whatever the table and the other arguments are.
\<close>

theorem filter_data_pass_through:
  "(\<forall>d s e. U ''Data'' \<in> set (columns d)
        \<and> list_all (\<lambda>r. timestamp_or_null (r (U ''Data''))) (rows d) \<longrightarrow>
      (\<exists>f. filter_data (Some d) (Some s) (Some e) None None None None None = Inr f
         \<and> rows f = filter (\<lambda>r. case r (U ''Data'') of
                                   PDate dt \<Rightarrow> date_le s dt \<and> date_le dt e
                                 | _ \<Rightarrow> False) (rows d)
         \<and> (\<not> is_empty d \<longrightarrow> columns f = columns d)))
   \<and> (\<forall>dt. date_le dt dt)
   \<and> (\<forall>df s e dp ma mi cl.
        filter_data df s e (Some []) dp ma mi cl = filter_data df s e None dp ma mi cl)
   \<and> (\<forall>df s e co ma mi cl.
        filter_data df s e co (Some []) ma mi cl = filter_data df s e co None ma mi cl)
   \<and> (\<forall>df s e co dp mi cl.
        filter_data df s e co dp (Some []) mi cl = filter_data df s e co dp None mi cl)
   \<and> (\<forall>df s e co dp ma cl.
        filter_data df s e co dp ma (Some []) cl = filter_data df s e co dp ma None cl)
   \<and> (\<forall>df s e co dp ma mi.
        filter_data df s e co dp ma mi (Some []) = filter_data df s e co dp ma mi None)"
proof -
  have a: "\<forall>d s e. U ''Data'' \<in> set (columns d)
        \<and> list_all (\<lambda>r. timestamp_or_null (r (U ''Data''))) (rows d) \<longrightarrow>
      (\<exists>f. filter_data (Some d) (Some s) (Some e) None None None None None = Inr f
         \<and> rows f = filter (\<lambda>r. case r (U ''Data'') of
                                   PDate dt \<Rightarrow> date_le s dt \<and> date_le dt e
                                 | _ \<Rightarrow> False) (rows d)
         \<and> (\<not> is_empty d \<longrightarrow> columns f = columns d))"
    using filter_data_by_date by (simp add: in_period_case)
  have c: "\<forall>dt. date_le dt dt"
  proof
    fix dt show "date_le dt dt" by (cases dt) simp
  qed
  have 1: "\<forall>df s e dp ma mi cl.
        filter_data df s e (Some []) dp ma mi cl = filter_data df s e None dp ma mi cl"
    unfolding filter_data_def selected.simps by simp
  have 2: "\<forall>df s e co ma mi cl.
        filter_data df s e co (Some []) ma mi cl = filter_data df s e co None ma mi cl"
    unfolding filter_data_def selected.simps by simp
  have 3: "\<forall>df s e co dp mi cl.
        filter_data df s e co dp (Some []) mi cl = filter_data df s e co dp None mi cl"
    unfolding filter_data_def selected.simps by simp
  have 4: "\<forall>df s e co dp ma cl.
        filter_data df s e co dp ma (Some []) cl = filter_data df s e co dp ma None cl"
    unfolding filter_data_def selected.simps by simp
  have 5: "\<forall>df s e co dp ma mi.
        filter_data df s e co dp ma mi (Some []) = filter_data df s e co dp ma mi None"
    unfolding filter_data_def selected.simps by simp
  show ?thesis by (intro conjI a c 1 2 3 4 5)
qed

theorem filter_data_pass_through_witness:
  "U ''Data'' \<in> set (columns
      \<lparr>columns = [U ''Data''],
       rows = [row_of [U ''Data''] [PDate (Date 2024 2 29)],
               row_of [U ''Data''] [PDate (Date 2024 3 1)],
               row_of [U ''Data''] [PNone],
               row_of [U ''Data''] [PDate (Date 2024 3 31)],
               row_of [U ''Data''] [PDate (Date 2024 4 1)]]\<rparr>)
   \<and> list_all (\<lambda>r. timestamp_or_null (r (U ''Data'')))
        (rows \<lparr>columns = [U ''Data''],
               rows = [row_of [U ''Data''] [PDate (Date 2024 2 29)],
                       row_of [U ''Data''] [PDate (Date 2024 3 1)],
                       row_of [U ''Data''] [PNone],
                       row_of [U ''Data''] [PDate (Date 2024 3 31)],
                       row_of [U ''Data''] [PDate (Date 2024 4 1)]]\<rparr>)
   \<and> filter_data
        (Some \<lparr>columns = [U ''Data''],
               rows = [row_of [U ''Data''] [PDate (Date 2024 2 29)],
                       row_of [U ''Data''] [PDate (Date 2024 3 1)],
                       row_of [U ''Data''] [PNone],
                       row_of [U ''Data''] [PDate (Date 2024 3 31)],
                       row_of [U ''Data''] [PDate (Date 2024 4 1)]]\<rparr>)
        (Some (Date 2024 3 1)) (Some (Date 2024 3 31)) None None None None None =
       Inr \<lparr>columns = [U ''Data''],
            rows = [row_of [U ''Data''] [PDate (Date 2024 3 1)],
                    row_of [U ''Data''] [PDate (Date 2024 3 31)]]\<rparr>"
proof -
  let ?d = "\<lparr>columns = [U ''Data''],
       rows = [row_of [U ''Data''] [PDate (Date 2024 2 29)],
               row_of [U ''Data''] [PDate (Date 2024 3 1)],
               row_of [U ''Data''] [PNone],
               row_of [U ''Data''] [PDate (Date 2024 3 31)],
               row_of [U ''Data''] [PDate (Date 2024 4 1)]]\<rparr>"
  have h: "U ''Data'' \<in> set (columns ?d)" by simp
  have k: "list_all (\<lambda>r. timestamp_or_null (r (U ''Data''))) (rows ?d)"
    by (simp add: row_of_def)
  have ne: "\<not> is_empty ?d" by (simp add: is_empty_def)
  note t = filter_data_pass_through [THEN conjunct1, rule_format, OF conjI, OF h k]
  from t [of "Date 2024 3 1" "Date 2024 3 31"] obtain f where
    f: "filter_data (Some ?d) (Some (Date 2024 3 1)) (Some (Date 2024 3 31))
          None None None None None = Inr f"
    and r: "rows f = filter (\<lambda>r. case r (U ''Data'') of
                       PDate dt \<Rightarrow> date_le (Date 2024 3 1) dt \<and> date_le dt (Date 2024 3 31)
                     | _ \<Rightarrow> False) (rows ?d)"
    and c: "\<not> is_empty ?d \<longrightarrow> columns f = columns ?d"
    by blast
  from r have r': "rows f = [row_of [U ''Data''] [PDate (Date 2024 3 1)],
                    row_of [U ''Data''] [PDate (Date 2024 3 31)]]"
    by (simp add: row_of_def)
  from c ne have c': "columns f = [U ''Data'']" by simp
  from r' c' have "f = \<lparr>columns = [U ''Data''],
            rows = [row_of [U ''Data''] [PDate (Date 2024 3 1)],
                    row_of [U ''Data''] [PDate (Date 2024 3 31)]]\<rparr>"
    by (cases f) simp
  with f have g: "filter_data (Some ?d) (Some (Date 2024 3 1)) (Some (Date 2024 3 31))
          None None None None None =
       Inr \<lparr>columns = [U ''Data''],
            rows = [row_of [U ''Data''] [PDate (Date 2024 3 1)],
                    row_of [U ''Data''] [PDate (Date 2024 3 31)]]\<rparr>" by simp
  show ?thesis by (intro conjI h k g)
qed


end
